theory Spec2Isabelle
  imports Main "HOL-Library.Word"
begin

section \<open>The nuntium MMS mediator: data model\<close>

text \<open>
  A shallow embedding of the mediator (\<^verbatim>\<open>cmd/nuntium/mediator.go\<close>) and of the telepathy
  service facade (\<^verbatim>\<open>telepathy/service.go\<close>).  Go strings are HOL strings, Go maps are
  partial functions, a nullable pointer is an \<open>option\<close>, the Go \<^verbatim>\<open>error\<close> result is an
  \<open>option\<close> (\<open>None\<close> is \<^verbatim>\<open>nil\<close>).  The mutable state the handlers share (the store
  on disk, the registry \<^verbatim>\<open>unrespondedTransactions\<close>, the facade's \<^verbatim>\<open>messageHandlers\<close>, the
  bus) is one record that every function takes and returns.  What a handler learns from
  outside the process (whether a bus send, a storage write, a context activation or a
  download succeeded, the wall clock) is read from an environment record.

  All methods are modelled for a non-nil receiver: a mediator handles notifications
  against the service that \<^verbatim>\<open>IdentityAdded\<close> registered.
\<close>

subsection \<open>storage/const.go\<close>

definition NOTIFICATION :: string where "NOTIFICATION = ''notification''"
definition DOWNLOADED :: string where "DOWNLOADED = ''downloaded''"
definition RECEIVED :: string where "RECEIVED = ''received''"
definition RESPONDED :: string where "RESPONDED = ''responded''"
definition DRAFT :: string where "DRAFT = ''draft''"
definition SENT :: string where "SENT = ''sent''"

subsection \<open>Notifications and stored records\<close>

text \<open>
  Modelled from the spec: the package \<^verbatim>\<open>mms\<close> is not among the sources.  A notification
  holds the fields the spec lists (sender, size, expiry timestamp, transaction-id,
  received-at, optional \<^verbatim>\<open>redownload_of\<close>) and its UUID.  Times are Unix seconds; the zero
  \<^verbatim>\<open>time.Time\<close> is \<open>zeroTime\<close>.
\<close>

record MNotificationInd =
  UUID :: string
  TransactionId :: string
  RedownloadOfUUID :: string
  From :: string
  Size :: nat
  Expire :: int
  Received :: int

definition zeroTime :: int where "zeroTime = - 62135596800"

definition IsZero :: "int \<Rightarrow> bool" where "IsZero t = (t = zeroTime)"

text \<open>
  Modelled from the spec: \<^verbatim>\<open>MNotificationInd.expired()\<close> is true when wall-clock time is past
  the notification's Expire header.
\<close>

definition Expired :: "int \<Rightarrow> MNotificationInd \<Rightarrow> bool" where
  "Expired now n = (Expire n < now)"

text \<open>
  Modelled from the spec: \<^verbatim>\<open>storage.MMSState\<close> (the package \<^verbatim>\<open>storage\<close> is represented in
  the sources by its constants only).  The fields are those of the spec's per-UUID record.
\<close>

record MMSState =
  ModemId :: string
  State :: string
  MNotificationInd :: "MNotificationInd option"
  TelepathyErrorNotified :: bool
  ContentPath :: string

text \<open>Modelled from the spec: a record is incoming iff its state is one of the four inbound states.\<close>

definition IsIncoming :: "MMSState \<Rightarrow> bool" where
  "IsIncoming st = (State st = NOTIFICATION \<or> State st = DOWNLOADED \<or> State st = RECEIVED \<or> State st = RESPONDED)"

subsection \<open>Bus values\<close>

text \<open>
  The JSON object \<^verbatim>\<open>IncomingMessageFailAdded\<close> marshals: \<^verbatim>\<open>Code\<close> and \<^verbatim>\<open>Message\<close> always,
  the fields tagged \<^verbatim>\<open>omitempty\<close> as options (\<open>None\<close>: the key is left out).
\<close>

record ErrorJSON =
  Code :: string
  Message :: string
  ExpireJ :: "int option"
  SizeJ :: "nat option"
  MobileData :: "bool option"

text \<open>
  A \<^verbatim>\<open>dbus.Variant\<close>.  \<open>VTime t\<close> is the string \<^verbatim>\<open>t.Format(time.RFC3339)\<close>, \<open>VError j\<close> the
  string \<^verbatim>\<open>json.Marshal\<close> returns for \<open>j\<close>.
\<close>

datatype Variant =
    VString string
  | VBool bool
  | VUint32 "32 word"
  | VInt64 "64 word"
  | VObjectPath string
  | VTime int
  | VError ErrorJSON
  | VOther

type_synonym Properties = "string \<rightharpoonup> Variant"

datatype Signal =
    MessageAddedSignal string Properties
  | MessageRemovedSignal string
  | PropertyChangedSignal string string Variant

text \<open>
  Modelled from the spec: the per-message surface object (\<^verbatim>\<open>telepathy/message.go\<close> is not
  among the sources).  It holds the delete channel and, optionally, the redownload channel;
  \<open>redownloadChan\<close> says whether \<^verbatim>\<open>NewMessageInterface\<close> was given a non-nil one.
\<close>

record MessageInterface =
  redownloadChan :: bool

subsection \<open>Errors\<close>

text \<open>
  A Go \<^verbatim>\<open>error\<close> value as the facade observes it: its message, and what the two interface
  assertions of \<^verbatim>\<open>IncomingMessageFailAdded\<close> find (\<open>None\<close>: the method is not implemented).
\<close>

record GoError =
  errMessage :: string
  errCode :: "string option"
  errAllowRedownload :: "bool option"

text \<open>
  Modelled from the spec: the error codes of section 6 and the taxonomy of section 7
  (the types \<^verbatim>\<open>standartizedError\<close> and \<^verbatim>\<open>downloadError\<close> are not among the sources).
  A \<^verbatim>\<open>standartizedError\<close> has a code; a \<^verbatim>\<open>downloadError\<close> also answers
  \<^verbatim>\<open>AllowRedownload\<close>, by the table's column.
\<close>

definition ErrorActivateContext :: string where
  "ErrorActivateContext = ''x-ubports-nuntium-mms-error-activate-context''"
definition ErrorGetProxy :: string where
  "ErrorGetProxy = ''x-ubports-nuntium-mms-error-get-proxy''"
definition ErrorDownloadContent :: string where
  "ErrorDownloadContent = ''x-ubports-nuntium-mms-error-download-content''"
definition ErrorStorage :: string where
  "ErrorStorage = ''x-ubports-nuntium-mms-error-storage''"
definition ErrorForward :: string where
  "ErrorForward = ''x-ubports-nuntium-mms-error-forward''"

definition standartizedError :: "string \<Rightarrow> string \<Rightarrow> GoError" where
  "standartizedError msg code = \<lparr>errMessage = msg, errCode = Some code, errAllowRedownload = None\<rparr>"

definition downloadError :: "GoError \<Rightarrow> GoError" where
  "downloadError e =
     e\<lparr>errAllowRedownload :=
          Some (errCode e = Some ErrorActivateContext \<or> errCode e = Some ErrorGetProxy
                \<or> errCode e = Some ErrorDownloadContent)\<rparr>"

subsection \<open>The shared state and the environment\<close>

datatype StoreOp =
    OpCreate | OpUpdateDownloaded | OpUpdateReceived | OpUpdateResponded
  | OpUpdateMNotificationInd | OpSetTelepathyErrorNotified | OpDestroy
  | OpSetPreferredContext

datatype DebugError =
    DebugErrorActivateContext | DebugErrorGetProxy | DebugErrorTelepathyErrorNotify
  | DebugErrorReceiveHandle | DebugErrorRespondHandle

record world =
  identity :: string
  store :: "string \<rightharpoonup> MMSState"
  unrespondedTransactions :: "string \<rightharpoonup> string"
  messageHandlers :: "string \<rightharpoonup> MessageInterface"
  preferredContext :: "string option"
  signals :: "Signal list"
  mNotificationIndChan :: "MNotificationInd list"
  files :: "string set"

text \<open>
  \<open>preferredContext\<close> is the store's per-identity preferred context (\<open>None\<close>: reading it
  fails); \<open>signals\<close> is the list of signals sent on the bus, oldest first;
  \<open>mNotificationIndChan\<close> the notifications sent to the mediator's
  \<^verbatim>\<open>NewMNotificationInd\<close> channel; \<open>files\<close> the temporary files on disk.
\<close>

text \<open>
  Modelled from the spec: \<^verbatim>\<open>MSendConf.status()\<close> is nil, transient or permanent.  The
  method returns a Go \<^verbatim>\<open>error\<close>, so a fourth value stands for any other error.
\<close>

datatype SendConfStatus = StatusNil | ErrPermanent | ErrTransient | ErrOther

text \<open>
  The environment of one handler run: the clock, which storage writes hit an I/O error,
  which bus sends fail, which debug errors \<^verbatim>\<open>PopDebugError\<close> finds in the notification,
  and the outcomes of the radio, HTTP and codec adapters:
  \<^item> \<open>activateResult\<close>: the error of \<^verbatim>\<open>ActivateMMSContext\<close>, or the activated context's object path;
  \<^item> \<open>proxyErr\<close>, \<open>mscErr\<close>: the errors of the context's \<^verbatim>\<open>GetProxy\<close> and \<^verbatim>\<open>GetMessageCenter\<close>;
  \<^item> \<open>downloadResult\<close>: the error of \<^verbatim>\<open>DownloadContent\<close>, or the downloaded file's path;
  \<^item> \<open>retrieveConfErr\<close>: the error of \<^verbatim>\<open>getMRetrieveConf\<close> (reading and decoding the stored content);
  \<^item> \<open>parseResult\<close>: what the facade's \<^verbatim>\<open>parseMessage\<close> returns for the decoded content;
  \<^item> \<open>respIndFile\<close>: the path of the encoded M-NotifyResp.ind file, empty when creating
    or encoding it failed;
  \<^item> \<open>respondErr\<close>: the error of the proxy, message center and upload calls of \<^verbatim>\<open>sendMNotifyRespInd\<close>;
  \<^item> \<open>uploadResult\<close>: the error of \<^verbatim>\<open>mms.Upload\<close>, or the path of the response file it wrote;
  \<^item> \<open>sendConfResult\<close>: the error of \<^verbatim>\<open>parseMSendConfFile\<close>, or the decoded M-Send.conf's status;
  \<^item> \<open>newUUID\<close>: the UUID \<^verbatim>\<open>mms.GenUUID\<close> returns;
  \<^item> \<open>historyMessage\<close>: the error of the history service's \<^verbatim>\<open>GetMessage\<close>, or what the
    message handle answers: \<^verbatim>\<open>Exists()\<close>, and the error or the result of \<^verbatim>\<open>IsNew()\<close>;
  \<^item> \<open>updateErrState\<close>: the record a storage update returns together with an error.
\<close>

record env =
  now :: int
  storageOk :: "StoreOp \<Rightarrow> string \<Rightarrow> bool"
  sendOk :: "Signal \<Rightarrow> bool"
  isDebug :: bool
  popDebugError :: "DebugError \<Rightarrow> string option"
  mobileDataEnabled :: "bool option"
  activateResult :: "string + string"
  proxyErr :: "string option"
  mscErr :: "string option"
  downloadResult :: "string + string"
  retrieveConfErr :: "string option"
  parseResult :: "string + Properties"
  respIndFile :: string
  respondErr :: "string option"
  uploadResult :: "string + string"
  sendConfResult :: "string + SendConfStatus"
  newUUID :: string
  historyMessage :: "string + (bool \<times> (string + bool))"
  updateErrState :: MMSState

section \<open>The store\<close>

text \<open>
  Modelled from the spec: the operations of the package \<^verbatim>\<open>storage\<close> (section 4.A), which
  is not among the sources.  The store is a map from UUID to record.  An operation fails,
  leaving the store as it was, when its record is missing, when the record is not in the
  state the operation requires, or when the environment reports an I/O error.
\<close>

definition Create :: "env \<Rightarrow> string \<Rightarrow> MNotificationInd \<Rightarrow> world \<Rightarrow> string option \<times> world" where
  "Create e modemId n w =
     (if storageOk e OpCreate (UUID n)
      then (None, w\<lparr>store := (store w)(UUID n \<mapsto>
              \<lparr>ModemId = modemId, State = NOTIFICATION, MNotificationInd = Some n,
               TelepathyErrorNotified = False, ContentPath = []\<rparr>)\<rparr>)
      else (Some ErrorStorage, w))"

definition GetMMSState :: "string \<Rightarrow> world \<Rightarrow> string + MMSState" where
  "GetMMSState uuid w = (case store w uuid of None \<Rightarrow> Inl ''NotFound'' | Some st \<Rightarrow> Inr st)"

definition advance :: "StoreOp \<Rightarrow> string \<Rightarrow> (MMSState \<Rightarrow> MMSState) \<Rightarrow> env \<Rightarrow> string \<Rightarrow> world
    \<Rightarrow> string option \<times> world" where
  "advance op required f e uuid w =
     (case store w uuid of
        None \<Rightarrow> (Some ''NotFound'', w)
      | Some st \<Rightarrow>
          if State st = required \<and> storageOk e op uuid
          then (None, w\<lparr>store := (store w)(uuid \<mapsto> f st)\<rparr>)
          else (Some ErrorStorage, w))"

definition UpdateDownloaded :: "env \<Rightarrow> string \<Rightarrow> string \<Rightarrow> world \<Rightarrow> string option \<times> world" where
  "UpdateDownloaded e uuid filePath =
     advance OpUpdateDownloaded NOTIFICATION (\<lambda>st. st\<lparr>State := DOWNLOADED, ContentPath := filePath\<rparr>) e uuid"

definition UpdateReceived :: "env \<Rightarrow> string \<Rightarrow> world \<Rightarrow> string option \<times> world" where
  "UpdateReceived = advance OpUpdateReceived DOWNLOADED (\<lambda>st. st\<lparr>State := RECEIVED\<rparr>)"

definition UpdateResponded :: "env \<Rightarrow> string \<Rightarrow> world \<Rightarrow> string option \<times> world" where
  "UpdateResponded = advance OpUpdateResponded RECEIVED (\<lambda>st. st\<lparr>State := RESPONDED\<rparr>)"

definition UpdateMNotificationInd :: "env \<Rightarrow> MNotificationInd \<Rightarrow> world \<Rightarrow> string option \<times> world" where
  "UpdateMNotificationInd e n w =
     (case store w (UUID n) of
        None \<Rightarrow> (Some ''NotFound'', w)
      | Some st \<Rightarrow>
          if storageOk e OpUpdateMNotificationInd (UUID n)
          then (None, w\<lparr>store := (store w)(UUID n \<mapsto> st\<lparr>MNotificationInd := Some n\<rparr>)\<rparr>)
          else (Some ErrorStorage, w))"

definition SetTelepathyErrorNotified :: "env \<Rightarrow> string \<Rightarrow> world \<Rightarrow> string option \<times> world" where
  "SetTelepathyErrorNotified e uuid w =
     (case store w uuid of
        None \<Rightarrow> (Some ''NotFound'', w)
      | Some st \<Rightarrow>
          if storageOk e OpSetTelepathyErrorNotified uuid
          then (None, w\<lparr>store := (store w)(uuid \<mapsto> st\<lparr>TelepathyErrorNotified := True\<rparr>)\<rparr>)
          else (Some ErrorStorage, w))"

definition Destroy :: "env \<Rightarrow> string \<Rightarrow> world \<Rightarrow> string option \<times> world" where
  "Destroy e uuid w =
     (if storageOk e OpDestroy uuid
      then (None, w\<lparr>store := (store w)(uuid := None)\<rparr>)
      else (Some ErrorStorage, w))"

section \<open>The service facade (telepathy/service.go)\<close>

text \<open>
  Modelled from the spec: the constants \<^verbatim>\<open>MMS_DBUS_PATH\<close> and \<^verbatim>\<open>PLMN\<close> (their file is not
  among the sources): the service object lives at \<^verbatim>\<open>/org/nuntium/mms/<identity>\<close>, and
  operators append the suffix \<^verbatim>\<open>/TYPE=PLMN\<close> to telephone numbers.
\<close>

definition MMS_DBUS_PATH :: string where "MMS_DBUS_PATH = ''/org/nuntium/mms''"

definition PLMN :: string where "PLMN = ''/TYPE=PLMN''"

definition GenMessagePath :: "world \<Rightarrow> string \<Rightarrow> string" where
  "GenMessagePath w uuid = MMS_DBUS_PATH @ ''/'' @ identity w @ ''/'' @ uuid"

text \<open>Go's \<^verbatim>\<open>strings.TrimSuffix\<close> and \<^verbatim>\<open>filepath.Base\<close> (on a system whose separator is the slash).\<close>

definition TrimSuffix :: "string \<Rightarrow> string \<Rightarrow> string" where
  "TrimSuffix s suffix =
     (if length suffix \<le> length s \<and> drop (length s - length suffix) s = suffix
      then take (length s - length suffix) s else s)"

definition Base :: "string \<Rightarrow> string" where
  "Base p =
     (if p = [] then ''.''
      else let q = rev (dropWhile (\<lambda>c. c = CHR ''/'') (rev p));
               r = rev (takeWhile (\<lambda>c. c \<noteq> CHR ''/'') (rev q))
           in if r = [] then ''/'' else r)"

definition getUUIDFromObjectPath :: "string \<Rightarrow> string + string" where
  "getUUIDFromObjectPath objectPath =
     (if objectPath = [] then Inl ''not a proper object path''
      else let uuid = Base objectPath
           in if uuid = [] \<or> uuid = ''..'' \<or> uuid = ''.'' then Inl ''not a proper object path''
              else Inr uuid)"

definition getMMSState :: "string \<Rightarrow> world \<Rightarrow> string + MMSState" where
  "getMMSState objectPath w =
     (case getUUIDFromObjectPath objectPath of
        Inl err \<Rightarrow> Inl err
      | Inr uuid \<Rightarrow> GetMMSState uuid w)"

definition send :: "env \<Rightarrow> Signal \<Rightarrow> world \<Rightarrow> string option \<times> world" where
  "send e sig w =
     (if sendOk e sig then (None, w\<lparr>signals := signals w @ [sig]\<rparr>)
      else (Some ''send failed'', w))"

definition MessageAdded :: "env \<Rightarrow> string \<Rightarrow> Properties \<Rightarrow> world \<Rightarrow> string option \<times> world" where
  "MessageAdded e path properties = send e (MessageAddedSignal path properties)"

definition SingnalMessageRemoved :: "env \<Rightarrow> string \<Rightarrow> world \<Rightarrow> string option \<times> world" where
  "SingnalMessageRemoved e objectPath = send e (MessageRemovedSignal objectPath)"

definition MessageRemoved :: "env \<Rightarrow> string \<Rightarrow> world \<Rightarrow> string option \<times> world" where
  "MessageRemoved e objectPath w =
     (case messageHandlers w objectPath of
        None \<Rightarrow> (Some ''message not handled'', w)
      | Some h \<Rightarrow>
          let w1 = w\<lparr>messageHandlers := (messageHandlers w)(objectPath := None)\<rparr>
          in (case getUUIDFromObjectPath objectPath of
                Inl err \<Rightarrow> (Some err, w1)
              | Inr uuid \<Rightarrow>
                  (case Destroy e uuid w1 of
                     (Some err, w2) \<Rightarrow> (Some err, w2)
                   | (None, w2) \<Rightarrow> SingnalMessageRemoved e objectPath w2)))"

definition MessageDestroy :: "string \<Rightarrow> world \<Rightarrow> string option \<times> world" where
  "MessageDestroy uuid w =
     (let msgObjectPath = GenMessagePath w uuid
      in case messageHandlers w msgObjectPath of
           Some msgInterface \<Rightarrow> (None, w\<lparr>messageHandlers := (messageHandlers w)(msgObjectPath := None)\<rparr>)
         | None \<Rightarrow> (Some ''no message interface handler for object path'', w))"

text \<open>
  Modelled from the spec: \<^verbatim>\<open>MessageInterface.StatusChanged\<close> pushes a status notification,
  the signal \<^verbatim>\<open>PropertyChanged\<close> carrying \<^verbatim>\<open>Status\<close> on the message's own path.
\<close>

definition StatusChanged :: "env \<Rightarrow> string \<Rightarrow> string \<Rightarrow> world \<Rightarrow> string option \<times> world" where
  "StatusChanged e path status = send e (PropertyChangedSignal path ''Status'' (VString status))"

definition MessageStatusChanged :: "env \<Rightarrow> string \<Rightarrow> string \<Rightarrow> world \<Rightarrow> string option \<times> world" where
  "MessageStatusChanged e uuid status w =
     (let msgObjectPath = GenMessagePath w uuid
      in case messageHandlers w msgObjectPath of
           Some msgInterface \<Rightarrow> StatusChanged e msgObjectPath status w
         | None \<Rightarrow> (Some ''no message interface handler for object path'', w))"

definition IncomingMessageFailAdded :: "env \<Rightarrow> MNotificationInd \<Rightarrow> GoError \<Rightarrow> world \<Rightarrow> string option \<times> world" where
  "IncomingMessageFailAdded e mNotificationInd downloadErr w =
     (case popDebugError e DebugErrorTelepathyErrorNotify of
        Some err \<Rightarrow> (Some err, snd (UpdateMNotificationInd e mNotificationInd w))
      | None \<Rightarrow>
          let params0 = [''Status'' \<mapsto> VString ''received'',
                         ''Date'' \<mapsto> VTime (now e),
                         ''Sender'' \<mapsto> VString (TrimSuffix (From mNotificationInd) PLMN)];
              errorCode = (case errCode downloadErr of
                             Some c \<Rightarrow> c | None \<Rightarrow> ''x-ubports-nuntium-mms-error-unknown'');
              allowRedownload0 = (case errAllowRedownload downloadErr of Some a \<Rightarrow> a | None \<Rightarrow> False);
              allowRedownload = (if allowRedownload0 \<and> Expired (now e) mNotificationInd
                                 then False else allowRedownload0);
              errorMessage = \<lparr>Code = errorCode, Message = errMessage downloadErr,
                              ExpireJ = Some (Expire mNotificationInd),
                              SizeJ = (if Size mNotificationInd = 0 then None
                                       else Some (Size mNotificationInd)),
                              MobileData = mobileDataEnabled e\<rparr>;
              params1 = params0(''Error'' \<mapsto> VError errorMessage,
                                ''AllowRedownload'' \<mapsto> VBool allowRedownload);
              params2 = (if RedownloadOfUUID mNotificationInd \<noteq> []
                         then params1(''DeleteEvent'' \<mapsto>
                                VString (GenMessagePath w (RedownloadOfUUID mNotificationInd)))
                         else params1);
              params3 = (if \<not> IsZero (Received mNotificationInd)
                         then params2(''Received'' \<mapsto> VUint32 (of_int (Received mNotificationInd)))
                         else params2);
              path = GenMessagePath w (UUID mNotificationInd);
              w1 = w\<lparr>messageHandlers := (messageHandlers w)(path \<mapsto> \<lparr>redownloadChan = allowRedownload\<rparr>)\<rparr>
          in MessageAdded e path params3 w1)"

text \<open>
  \<^verbatim>\<open>IncomingMessageAdded\<close>.  The decoded M-Retrieve.conf is not modelled: the environment
  gives what \<^verbatim>\<open>parseMessage\<close> returns for it (an error, or the parsed properties), and the
  payload's path is that of the M-Retrieve.conf's UUID.
\<close>

definition IncomingMessageAdded :: "env \<Rightarrow> string \<Rightarrow> MNotificationInd \<Rightarrow> world \<Rightarrow> string option \<times> world" where
  "IncomingMessageAdded e mRetConfUUID mNotificationInd w =
     (case popDebugError e DebugErrorReceiveHandle of
        Some err \<Rightarrow> (Some err, snd (UpdateMNotificationInd e mNotificationInd w))
      | None \<Rightarrow>
          (case parseResult e of
             Inl err \<Rightarrow> (Some err, w)
           | Inr properties \<Rightarrow>
               let path = GenMessagePath w mRetConfUUID;
                   properties1 = (if RedownloadOfUUID mNotificationInd \<noteq> []
                                  then properties(''DeleteEvent'' \<mapsto>
                                         VString (GenMessagePath w (RedownloadOfUUID mNotificationInd)))
                                  else properties);
                   properties2 = (if \<not> IsZero (Received mNotificationInd)
                                  then properties1(''Received'' \<mapsto> VInt64 (of_int (Received mNotificationInd)))
                                  else properties1);
                   w1 = w\<lparr>messageHandlers := (messageHandlers w)(path \<mapsto> \<lparr>redownloadChan = False\<rparr>)\<rparr>
               in MessageAdded e path properties2 w1))"

subsection \<open>The user's delete and redownload requests\<close>

text \<open>
  One iteration of the loop of \<^verbatim>\<open>watchMessageDeleteCalls\<close>, for the object path read from
  the delete channel, and one of \<^verbatim>\<open>watchMessageRedownloadCalls\<close>.  Logging is no part of
  the state: an iteration that only logs returns the state it was given.
\<close>

definition watchMessageDeleteCalls :: "env \<Rightarrow> string \<Rightarrow> world \<Rightarrow> world" where
  "watchMessageDeleteCalls e msgObjectPath w =
     (case getMMSState msgObjectPath w of
        Inr mmsState \<Rightarrow>
          if State mmsState \<noteq> RESPONDED \<and> MNotificationInd mmsState \<noteq> None
             \<and> \<not> Expired (now e) (the (MNotificationInd mmsState))
          then w
          else snd (MessageRemoved e msgObjectPath w)
      | Inl err \<Rightarrow> snd (MessageRemoved e msgObjectPath w))"

definition watchMessageRedownloadCalls :: "env \<Rightarrow> string \<Rightarrow> world \<Rightarrow> world" where
  "watchMessageRedownloadCalls e msgObjectPath w =
     (case getMMSState msgObjectPath w of
        Inl err \<Rightarrow> w
      | Inr mmsState \<Rightarrow>
          if State mmsState \<noteq> NOTIFICATION then w
          else (case MNotificationInd mmsState of
                  None \<Rightarrow> w
                | Some stored \<Rightarrow>
                    let w1 = snd (MessageRemoved e msgObjectPath w);
                        newMNotificationInd =
                          stored\<lparr>RedownloadOfUUID := UUID stored, UUID := newUUID e\<rparr>;
                        w2 = snd (Create e (ModemId mmsState) newMNotificationInd w1)
                    in w2\<lparr>mNotificationIndChan := mNotificationIndChan w2 @ [newMNotificationInd]\<rparr>))"

subsection \<open>The preferred context\<close>

definition GetPreferredContext :: "world \<Rightarrow> string + string" where
  "GetPreferredContext w =
     (case preferredContext w of None \<Rightarrow> Inl ''no preferred context'' | Some pc \<Rightarrow> Inr pc)"

text \<open>
  The no-op test of \<^verbatim>\<open>SetPreferredContext\<close> is \<^verbatim>\<open>err != nil && context == pc\<close>: it holds
  when reading the stored path failed and the new path equals the empty path the failed
  read returned.
\<close>

definition SetPreferredContext :: "env \<Rightarrow> string \<Rightarrow> world \<Rightarrow> string option \<times> world" where
  "SetPreferredContext e ctx w =
     (if (case GetPreferredContext w of Inl err \<Rightarrow> ctx = [] | Inr pc \<Rightarrow> False) then (None, w)
      else if \<not> storageOk e OpSetPreferredContext (identity w) then (Some ErrorStorage, w)
      else send e (PropertyChangedSignal (MMS_DBUS_PATH @ ''/'' @ identity w)
                     ''PreferredContext'' (VObjectPath ctx))
             (w\<lparr>preferredContext := Some ctx\<rparr>))"

section \<open>The mediator (cmd/nuntium/mediator.go)\<close>

subsection \<open>The feature flag\<close>

text \<open>
  What \<^verbatim>\<open>mmsEnabled\<close> meets on the system bus: the errors of \<^verbatim>\<open>dbus.Connect\<close>,
  \<^verbatim>\<open>user.Current\<close> and of the property call, whether the reply is of type error, the
  error of decoding the reply, and the value the decoded variant holds.  The last line of
  the function is the type assertion \<^verbatim>\<open>mms.Value.(bool)\<close>, which panics on a variant that
  holds no bool.
\<close>

record AccountsService =
  connectErr :: "string option"
  currentUserErr :: "string option"
  callErr :: "string option"
  replyIsError :: bool
  argsErr :: "string option"
  replyValue :: Variant

datatype 'a outcome = Returns 'a | Panics

definition mmsEnabled :: "AccountsService \<Rightarrow> bool outcome" where
  "mmsEnabled a =
     (if connectErr a \<noteq> None then Returns True
      else if currentUserErr a \<noteq> None then Returns True
      else if callErr a \<noteq> None \<or> replyIsError a then Returns True
      else if argsErr a \<noteq> None then Returns True
      else (case replyValue a of VBool b \<Rightarrow> Returns b | _ \<Rightarrow> Panics))"

subsection \<open>A pushed notification\<close>

text \<open>
  \<^verbatim>\<open>handlePushAgentNotification\<close>.  \<open>decoded\<close> is the notification the decoder returns for
  the push (\<open>None\<close>: the push is nil or does not decode).
\<close>

definition handlePushAgentNotification :: "env \<Rightarrow> MNotificationInd option \<Rightarrow> string \<Rightarrow> world \<Rightarrow> world" where
  "handlePushAgentNotification e decoded modemId w =
     (case decoded of
        None \<Rightarrow> w
      | Some mNotificationInd \<Rightarrow>
          let n1 =
                (if TransactionId mNotificationInd \<noteq> [] then
                   (case unrespondedTransactions w (TransactionId mNotificationInd) of
                      Some uuid \<Rightarrow>
                        (case GetMMSState uuid w of
                           Inr st \<Rightarrow>
                             (case MNotificationInd st of
                                Some stored \<Rightarrow> mNotificationInd\<lparr>Received := Received stored\<rparr>
                              | None \<Rightarrow> mNotificationInd)
                         | Inl err \<Rightarrow> mNotificationInd)
                    | None \<Rightarrow> mNotificationInd)
                 else mNotificationInd);
              w1 = snd (Create e modemId n1 w)
          in w1\<lparr>mNotificationIndChan := mNotificationIndChan w1 @ [n1]\<rparr>)"

subsection \<open>Surfacing a download error\<close>

definition handleMessageDownloadError :: "env \<Rightarrow> MNotificationInd \<Rightarrow> GoError \<Rightarrow> world \<Rightarrow> world" where
  "handleMessageDownloadError e mNotificationInd err w =
     (let unrespondedUUID = (case unrespondedTransactions w (TransactionId mNotificationInd) of
                               Some u \<Rightarrow> u | None \<Rightarrow> []);
          inUnresponded = (unrespondedTransactions w (TransactionId mNotificationInd) \<noteq> None);
          notFirst = (TransactionId mNotificationInd \<noteq> [] \<and> RedownloadOfUUID mNotificationInd = []
                      \<and> inUnresponded \<and> unrespondedUUID \<noteq> UUID mNotificationInd)
      in if notFirst \<and>
            (case GetMMSState unrespondedUUID w of
               Inr unrespondedState \<Rightarrow>
                 TelepathyErrorNotified unrespondedState \<or> State unrespondedState = RECEIVED
                 \<or> State unrespondedState = RESPONDED
             | Inl err' \<Rightarrow> False)
         then snd (Destroy e (UUID mNotificationInd) w)
         else
           (case IncomingMessageFailAdded e mNotificationInd err w of
              (Some addErr, w1) \<Rightarrow>
                if notFirst then snd (Destroy e (UUID mNotificationInd) w1) else w1
            | (None, w1) \<Rightarrow>
                (case SetTelepathyErrorNotified e (UUID mNotificationInd) w1 of
                   (Some err', w2) \<Rightarrow>
                     if notFirst then snd (Destroy e (UUID mNotificationInd) w2) else w2
                 | (None, w2) \<Rightarrow>
                     if TransactionId mNotificationInd \<noteq> [] \<and> inUnresponded
                        \<and> unrespondedUUID \<noteq> UUID mNotificationInd
                     then
                       (let w4 = (case MessageRemoved e (GenMessagePath w2 unrespondedUUID) w2 of
                                    (Some err', w3) \<Rightarrow> w3
                                  | (None, w3) \<Rightarrow> snd (Destroy e (UUID mNotificationInd) w3))
                        in w4\<lparr>unrespondedTransactions :=
                                (unrespondedTransactions w4)(TransactionId mNotificationInd \<mapsto>
                                   UUID mNotificationInd)\<rparr>)
                     else w2)))"

subsection \<open>Forwarding the downloaded message\<close>

text \<open>
  \<^verbatim>\<open>getAndHandleMRetrieveConf\<close> writes \<^verbatim>\<open>RedownloadOfUUID\<close> into the notification it was
  given a pointer to, so the model returns the notification with the state.  The decoded
  M-Retrieve.conf it returns has the notification's UUID.
\<close>

definition getAndHandleMRetrieveConf ::
    "env \<Rightarrow> MNotificationInd \<Rightarrow> world \<Rightarrow> string option \<times> MNotificationInd \<times> world" where
  "getAndHandleMRetrieveConf e mNotificationInd w =
     (case retrieveConfErr e of
        Some err \<Rightarrow> (Some err, mNotificationInd, w)
      | None \<Rightarrow>
          let unrespondedUUID = (case unrespondedTransactions w (TransactionId mNotificationInd) of
                                   Some u \<Rightarrow> u | None \<Rightarrow> []);
              inUnresponded = (unrespondedTransactions w (TransactionId mNotificationInd) \<noteq> None);
              removeUnresponded =
                (TransactionId mNotificationInd \<noteq> [] \<and> RedownloadOfUUID mNotificationInd = []
                 \<and> inUnresponded \<and> unrespondedUUID \<noteq> UUID mNotificationInd
                 \<and> (case GetMMSState unrespondedUUID w of
                        Inr unrespondedState \<Rightarrow> TelepathyErrorNotified unrespondedState
                      | Inl err \<Rightarrow> False));
              n1 = (if removeUnresponded
                    then mNotificationInd\<lparr>RedownloadOfUUID := unrespondedUUID\<rparr>
                    else mNotificationInd)
          in (case IncomingMessageAdded e (UUID mNotificationInd) n1 w of
                (Some err, w1) \<Rightarrow> (Some (''cannot notify telepathy about new message: '' @ err), n1, w1)
              | (None, w1) \<Rightarrow>
                  if removeUnresponded
                  then (None, n1, snd (MessageRemoved e (GenMessagePath w1 unrespondedUUID) w1))
                  else (None, n1, w1)))"

subsection \<open>The inbound handler\<close>

text \<open>
  The first block of \<^verbatim>\<open>handleMNotificationInd\<close> (after taking the context lock): the
  transaction is added to \<^verbatim>\<open>unrespondedTransactions\<close> if it is not there, or if the UUID
  it points at is not in the store.
\<close>

definition addUnresponded :: "MNotificationInd \<Rightarrow> world \<Rightarrow> world" where
  "addUnresponded mNotificationInd w =
     (if TransactionId mNotificationInd \<noteq> [] then
        (case unrespondedTransactions w (TransactionId mNotificationInd) of
           None \<Rightarrow>
             w\<lparr>unrespondedTransactions :=
                 (unrespondedTransactions w)(TransactionId mNotificationInd \<mapsto> UUID mNotificationInd)\<rparr>
         | Some uuid \<Rightarrow>
             (case GetMMSState uuid w of
                Inl err \<Rightarrow>
                  w\<lparr>unrespondedTransactions :=
                      (unrespondedTransactions w)(TransactionId mNotificationInd \<mapsto> UUID mNotificationInd)\<rparr>
              | Inr st \<Rightarrow> w))
      else w)"

definition debugMMSContextError :: "env \<Rightarrow> GoError option" where
  "debugMMSContextError e =
     (case popDebugError e DebugErrorActivateContext of
        Some err \<Rightarrow> Some (downloadError (standartizedError err ErrorActivateContext))
      | None \<Rightarrow>
          (case popDebugError e DebugErrorGetProxy of
             Some err \<Rightarrow> Some (downloadError (standartizedError err ErrorGetProxy))
           | None \<Rightarrow> None))"

text \<open>
  \<^verbatim>\<open>handleMNotifyRespInd\<close> leaves the encoded file on disk and returns its path;
  \<^verbatim>\<open>sendMNotifyRespInd\<close> removes the file on every exit.
\<close>

definition handleMNotifyRespInd :: "env \<Rightarrow> world \<Rightarrow> string \<times> world" where
  "handleMNotifyRespInd e w =
     (if respIndFile e = [] then ([], w)
      else (respIndFile e, w\<lparr>files := insert (respIndFile e) (files w)\<rparr>))"

definition sendMNotifyRespInd :: "env \<Rightarrow> string \<Rightarrow> world \<Rightarrow> string option \<times> world" where
  "sendMNotifyRespInd e filePath w = (respondErr e, w\<lparr>files := files w - {filePath}\<rparr>)"

text \<open>
  The rest of \<^verbatim>\<open>handleMNotificationInd\<close>, from the bottom up: notifying the MMS center
  and recording the response; forwarding the downloaded message; the download; and the
  handler itself, which starts with the registry and the context.
\<close>

definition respond :: "env \<Rightarrow> MNotificationInd \<Rightarrow> world \<Rightarrow> world" where
  "respond e mNotificationInd w =
     (let responded = (\<lambda>w'. snd (UpdateResponded e (UUID mNotificationInd)
                          (w'\<lparr>unrespondedTransactions :=
                                (unrespondedTransactions w')(TransactionId mNotificationInd := None)\<rparr>)))
      in if \<not> isDebug e then
           (case handleMNotifyRespInd e w of
              (filePath, w1) \<Rightarrow>
                if filePath = [] then w1
                else (case sendMNotifyRespInd e filePath w1 of
                        (Some err, w2) \<Rightarrow> w2
                      | (None, w2) \<Rightarrow> responded w2))
         else
           (case popDebugError e DebugErrorRespondHandle of
              Some err \<Rightarrow> snd (UpdateMNotificationInd e mNotificationInd w)
            | None \<Rightarrow> responded w))"

definition forward :: "env \<Rightarrow> MNotificationInd \<Rightarrow> world \<Rightarrow> world" where
  "forward e mNotificationInd w =
     (case getAndHandleMRetrieveConf e mNotificationInd w of
        (Some err, n1, w1) \<Rightarrow> handleMessageDownloadError e n1 (standartizedError err ErrorForward) w1
      | (None, n1, w1) \<Rightarrow>
          (case UpdateReceived e (UUID mNotificationInd) w1 of
             (Some err, w2) \<Rightarrow> w2
           | (None, w2) \<Rightarrow> respond e n1 w2))"

definition download :: "env \<Rightarrow> MNotificationInd \<Rightarrow> world \<Rightarrow> world" where
  "download e mNotificationInd w =
     (case downloadResult e of
        Inl err \<Rightarrow>
          handleMessageDownloadError e mNotificationInd
            (downloadError (standartizedError err ErrorDownloadContent)) w
      | Inr filePath \<Rightarrow>
          (case UpdateDownloaded e (UUID mNotificationInd) filePath w of
             (Some err, w1) \<Rightarrow>
               handleMessageDownloadError e mNotificationInd
                 (downloadError (standartizedError err ErrorStorage)) w1
           | (None, w1) \<Rightarrow> forward e mNotificationInd w1))"

definition handleMNotificationInd :: "env \<Rightarrow> MNotificationInd \<Rightarrow> world \<Rightarrow> world" where
  "handleMNotificationInd e mNotificationInd w =
     (let w0 = addUnresponded mNotificationInd w
      in if isDebug e then
           (case debugMMSContextError e of
              Some err \<Rightarrow>
                handleMessageDownloadError e mNotificationInd err
                  (snd (UpdateMNotificationInd e mNotificationInd w0))
            | None \<Rightarrow> download e mNotificationInd w0)
         else
           (case activateResult e of
              Inl err \<Rightarrow>
                handleMessageDownloadError e mNotificationInd
                  (downloadError (standartizedError err ErrorActivateContext)) w0
            | Inr ctx \<Rightarrow>
                let w1 = snd (SetPreferredContext e ctx w0)
                in (case proxyErr e of
                      Some err \<Rightarrow>
                        handleMessageDownloadError e mNotificationInd
                          (downloadError (standartizedError err ErrorGetProxy)) w1
                    | None \<Rightarrow> download e mNotificationInd w1)))"

subsection \<open>The outbound submission\<close>

text \<open>
  Modelled from the spec: the status constants of the package \<^verbatim>\<open>telepathy\<close> (their file is
  not among the sources): the surface's status is one of \<^verbatim>\<open>sent\<close>, \<^verbatim>\<open>permanent-error\<close>,
  \<^verbatim>\<open>transient-error\<close>.
\<close>

definition SENT_STATUS :: string where "SENT_STATUS = ''sent''"
definition PERMANENT_ERROR :: string where "PERMANENT_ERROR = ''permanent-error''"
definition TRANSIENT_ERROR :: string where "TRANSIENT_ERROR = ''transient-error''"

definition uploadFile :: "env \<Rightarrow> string \<Rightarrow> world \<Rightarrow> (string + string) \<times> world" where
  "uploadFile e filePath w =
     (case activateResult e of
        Inl err \<Rightarrow> (Inl err, w)
      | Inr ctx \<Rightarrow>
          let w1 = snd (SetPreferredContext e ctx w)
          in (case proxyErr e of
                Some err \<Rightarrow> (Inl err, w1)
              | None \<Rightarrow>
                  (case mscErr e of
                     Some err \<Rightarrow> (Inl err, w1)
                   | None \<Rightarrow>
                       (case uploadResult e of
                          Inl err \<Rightarrow> (Inl err, w1)
                        | Inr mSendRespFile \<Rightarrow>
                            (Inr mSendRespFile, w1\<lparr>files := insert mSendRespFile (files w1)\<rparr>)))))"

text \<open>
  \<^verbatim>\<open>sendMSendReq\<close>.  Its three deferred calls run when it returns, the last deferred
  first: removing the M-Send.conf file (deferred only once the upload has succeeded),
  \<^verbatim>\<open>MessageDestroy\<close>, removing the M-Send.req file.
\<close>

definition sendMSendReq :: "env \<Rightarrow> string \<Rightarrow> string \<Rightarrow> world \<Rightarrow> world" where
  "sendMSendReq e mSendReqFile uuid w =
     (let deferred = (\<lambda>w'. (snd (MessageDestroy uuid w'))\<lparr>files := files w' - {mSendReqFile}\<rparr>)
      in case uploadFile e mSendReqFile w of
           (Inl err, w1) \<Rightarrow> deferred (snd (MessageStatusChanged e uuid TRANSIENT_ERROR w1))
         | (Inr mSendConfFile, w1) \<Rightarrow>
             let deferred2 = (\<lambda>w'. deferred (w'\<lparr>files := files w' - {mSendConfFile}\<rparr>))
             in (case sendConfResult e of
                   Inl err \<Rightarrow> deferred2 (snd (MessageStatusChanged e uuid TRANSIENT_ERROR w1))
                 | Inr mSendConfStatus \<Rightarrow>
                     let status = (case mSendConfStatus of
                                     StatusNil \<Rightarrow> SENT_STATUS
                                   | ErrPermanent \<Rightarrow> PERMANENT_ERROR
                                   | ErrTransient \<Rightarrow> TRANSIENT_ERROR
                                   | ErrOther \<Rightarrow> [])
                     in deferred2 (snd (MessageStatusChanged e uuid status w1))))"

subsection \<open>Startup reconciliation\<close>

text \<open>
  \<^verbatim>\<open>InitializationMessageAdded\<close> of the facade.  \<open>notif\<close> is the notification pointer it is
  given; the M-Retrieve.conf it is given is nil when \<^verbatim>\<open>getMRetrieveConf\<close> failed, and is
  parsed by \<^verbatim>\<open>parseMessage\<close> otherwise.  The two properties it copies from the parsed
  message are copied when the parsed message does not have them, as the zero variant.
\<close>

definition InitializationMessageAdded :: "env \<Rightarrow> MNotificationInd option \<Rightarrow> world \<Rightarrow> string option \<times> world" where
  "InitializationMessageAdded e notif w =
     (case notif of
        None \<Rightarrow> (Some ''nil MNotificationInd'', w)
      | Some mNotificationInd \<Rightarrow>
          let path = GenMessagePath w (UUID mNotificationInd)
          in if messageHandlers w path \<noteq> None then (Some ''message is already handled'', w)
             else
               let payload0 = [''Status'' \<mapsto> VString ''received'',
                               ''Sender'' \<mapsto> VString (TrimSuffix (From mNotificationInd) PLMN),
                               ''Rescued'' \<mapsto> VBool True,
                               ''Silent'' \<mapsto> VBool True];
                   payload =
                     (case retrieveConfErr e of
                        Some err \<Rightarrow> payload0
                      | None \<Rightarrow>
                          (case parseResult e of
                             Inl err \<Rightarrow> payload0
                           | Inr pl \<Rightarrow>
                               let p1 = (if pl ''Sender'' = None then payload0(''Sender'' \<mapsto> VOther)
                                         else payload0)
                               in if pl ''Recipients'' = None then p1(''Recipients'' \<mapsto> VOther)
                                  else p1));
                   w1 = w\<lparr>messageHandlers := (messageHandlers w)(path \<mapsto> \<lparr>redownloadChan = True\<rparr>)\<rparr>
               in MessageAdded e path payload w1)"

definition respondMessage :: "env \<Rightarrow> MNotificationInd \<Rightarrow> world \<Rightarrow> string option \<times> world" where
  "respondMessage e mNotificationInd w =
     (case retrieveConfErr e of
        Some err \<Rightarrow> (Some err, w)
      | None \<Rightarrow>
          if \<not> isDebug e then
            (case activateResult e of
               Inl err \<Rightarrow> (Some (''error activating ofono context: '' @ err), w)
             | Inr ctx \<Rightarrow>
                 (case handleMNotifyRespInd e w of
                    (filePath, w1) \<Rightarrow>
                      if filePath = [] then (Some ''Getting file for m-notifyresp.ind failed'', w1)
                      else (case sendMNotifyRespInd e filePath w1 of
                              (Some err, w2) \<Rightarrow> (Some (''error sending m-notifyresp.ind: '' @ err), w2)
                            | (None, w2) \<Rightarrow> (None, w2))))
          else
            (case popDebugError e DebugErrorRespondHandle of
               Some err \<Rightarrow> (Some err, snd (UpdateMNotificationInd e mNotificationInd w))
             | None \<Rightarrow> (None, w)))"

definition checkExpiredAndHandle :: "env \<Rightarrow> string \<Rightarrow> MNotificationInd \<Rightarrow> world \<Rightarrow> bool \<times> world" where
  "checkExpiredAndHandle e uuid mNotificationInd w =
     (if \<not> Expired (now e) mNotificationInd then (False, w)
      else (True, snd (SingnalMessageRemoved e (GenMessagePath w uuid) (snd (Destroy e uuid w)))))"

text \<open>
  The loop body of \<^verbatim>\<open>initializeMessages\<close> assigns what a storage update returns to its
  variable \<^verbatim>\<open>mmsState\<close>: after a successful update that is the stored record, whose
  notification \<open>storedNotification\<close> reads; after a failed one it is \<open>updateErrState\<close>.

  The cases of the switch on the record's state, the last first, since a case falls
  through to the next.  Each returns whether \<^verbatim>\<open>startTelepathyHandlers\<close> is set, and then
  the notification pointer of \<^verbatim>\<open>mmsState\<close> at that point.
\<close>

definition storedNotification :: "MNotificationInd \<Rightarrow> string \<Rightarrow> world \<Rightarrow> MNotificationInd" where
  "storedNotification n uuid w =
     (case store w uuid of
        Some st \<Rightarrow> (case MNotificationInd st of Some n' \<Rightarrow> n' | None \<Rightarrow> n)
      | None \<Rightarrow> n)"

definition caseResponded ::
    "env \<Rightarrow> string \<Rightarrow> MNotificationInd \<Rightarrow> bool \<Rightarrow> world \<Rightarrow> MNotificationInd option option \<times> world" where
  "caseResponded e uuid n checkInHistoryService w =
     (let w1 = w\<lparr>unrespondedTransactions := (unrespondedTransactions w)(TransactionId n := None)\<rparr>
      in if checkInHistoryService then
           (case historyMessage e of
              Inl err \<Rightarrow> (Some (Some n), w1)
            | Inr (exists, isNew) \<Rightarrow>
                if \<not> exists then (None, snd (Destroy e uuid w1))
                else (case isNew of
                        Inl err \<Rightarrow> (Some (Some n), w1)
                      | Inr isnew \<Rightarrow>
                          if \<not> isnew then (None, snd (Destroy e uuid w1))
                          else (Some (Some n), w1)))
         else (Some (Some n), w1))"

definition caseReceived ::
    "env \<Rightarrow> string \<Rightarrow> MNotificationInd \<Rightarrow> bool \<Rightarrow> world \<Rightarrow> MNotificationInd option option \<times> world" where
  "caseReceived e uuid n checkInHistoryService w =
     (case (if \<not> Expired (now e) n then respondMessage e n w else (None, w)) of
        (Some err, w1) \<Rightarrow> (Some (Some n), w1)
      | (None, w1) \<Rightarrow>
          (case UpdateResponded e (UUID n) w1 of
             (Some err, w2) \<Rightarrow> (Some (MNotificationInd (updateErrState e)), w2)
           | (None, w2) \<Rightarrow>
               caseResponded e uuid (storedNotification n (UUID n) w2) checkInHistoryService w2))"

definition caseDownloaded ::
    "env \<Rightarrow> string \<Rightarrow> MNotificationInd \<Rightarrow> world \<Rightarrow> MNotificationInd option option \<times> world" where
  "caseDownloaded e uuid n w =
     (case getAndHandleMRetrieveConf e n w of
        (Some err, n1, w1) \<Rightarrow> (Some (Some n1), w1)
      | (None, n1, w1) \<Rightarrow>
          (case UpdateReceived e (UUID n) w1 of
             (Some err, w2) \<Rightarrow> (Some (MNotificationInd (updateErrState e)), w2)
           | (None, w2) \<Rightarrow> caseReceived e uuid (storedNotification n1 (UUID n) w2) False w2))"

text \<open>
  One iteration of the loop of \<^verbatim>\<open>initializeMessages\<close>, for one stored UUID: it takes and
  returns the map \<^verbatim>\<open>handledTransactions\<close> with the state.  A notification handed to the
  goroutine that sends it to \<^verbatim>\<open>NewMNotificationInd\<close> is appended to
  \<open>mNotificationIndChan\<close>.
\<close>

definition initializeMessage ::
    "env \<Rightarrow> string \<Rightarrow> string \<Rightarrow> (string \<rightharpoonup> string) \<times> world \<Rightarrow> (string \<rightharpoonup> string) \<times> world" where
  "initializeMessage e modemId uuid hw =
     (case hw of (handledTransactions, w) \<Rightarrow>
        (case GetMMSState uuid w of
           Inl err \<Rightarrow> (handledTransactions, snd (Destroy e uuid w))
         | Inr mmsState \<Rightarrow>
             if \<not> IsIncoming mmsState then (handledTransactions, w)
             else if ModemId mmsState = [] then (handledTransactions, snd (Destroy e uuid w))
             else if modemId \<noteq> ModemId mmsState then (handledTransactions, w)
             else
               (case MNotificationInd mmsState of
                  None \<Rightarrow> (handledTransactions, snd (Destroy e uuid w))
                | Some n \<Rightarrow>
                    if TransactionId n \<noteq> [] \<and> handledTransactions (TransactionId n) \<noteq> None
                    then (handledTransactions, snd (Destroy e uuid w))
                    else
                      let handled1 = (if TransactionId n \<noteq> []
                                      then handledTransactions(TransactionId n \<mapsto> uuid)
                                      else handledTransactions);
                          w1 = (if TransactionId n \<noteq> []
                                then w\<lparr>unrespondedTransactions :=
                                         (unrespondedTransactions w)(TransactionId n \<mapsto> uuid)\<rparr>
                                else w);
                          r = (if State mmsState = NOTIFICATION then
                                 (if \<not> TelepathyErrorNotified mmsState
                                  then (None, w1\<lparr>mNotificationIndChan := mNotificationIndChan w1 @ [n]\<rparr>)
                                  else (case checkExpiredAndHandle e uuid n w1 of
                                          (True, w2) \<Rightarrow>
                                            (None, w2\<lparr>unrespondedTransactions :=
                                                        (unrespondedTransactions w2)(TransactionId n := None)\<rparr>)
                                        | (False, w2) \<Rightarrow> (Some (Some n), w2)))
                               else if State mmsState = DOWNLOADED then caseDownloaded e uuid n w1
                               else if State mmsState = RECEIVED then caseReceived e uuid n True w1
                               else if State mmsState = RESPONDED then caseResponded e uuid n True w1
                               else (None, w1))
                      in (handled1,
                          case fst r of
                            None \<Rightarrow> snd r
                          | Some notif \<Rightarrow> snd (InitializationMessageAdded e notif (snd r))))))"

text \<open>
  \<^verbatim>\<open>initializeMessages\<close>: the loop over the UUIDs \<^verbatim>\<open>storage.GetStoredUUIDs\<close> returned, each
  record handled in its own environment.
\<close>

definition initializeMessages :: "(string \<Rightarrow> env) \<Rightarrow> string \<Rightarrow> string list \<Rightarrow> world \<Rightarrow> world" where
  "initializeMessages es modemId uuids w =
     snd (fold (\<lambda>uuid. initializeMessage (es uuid) modemId uuid) uuids (Map.empty, w))"

section \<open>A push handled to its end\<close>

text \<open>
  \<^verbatim>\<open>handlePushAgentNotification\<close> stores the pushed notification and sends it to
  \<^verbatim>\<open>NewMNotificationInd\<close>; the loop of \<^verbatim>\<open>Mediator.init\<close> receives it and starts
  \<^verbatim>\<open>handleMNotificationInd\<close> on it (\<^verbatim>\<open>deferredDownload\<close> is false, as nothing sets it).
  \<open>push\<close> is the run in which nothing else happens in between.
\<close>

definition push :: "env \<Rightarrow> string \<Rightarrow> MNotificationInd \<Rightarrow> world \<Rightarrow> world" where
  "push e modemId n w =
     (let w1 = handlePushAgentNotification e (Some n) modemId w
      in handleMNotificationInd e (last (mNotificationIndChan w1)) w1)"

section \<open>Concrete states\<close>

text \<open>
  An environment in which every adapter, every storage write and every bus send succeeds,
  a service with no message, and a first notification of transaction \<^verbatim>\<open>T1\<close>.  The
  examples below are evaluated on them.
\<close>

definition env0 :: env where
  "env0 = \<lparr>now = 1000, storageOk = (\<lambda>op uuid. True), sendOk = (\<lambda>sig. True), isDebug = False,
           popDebugError = (\<lambda>k. None), mobileDataEnabled = Some True,
           activateResult = Inr ''/ril_0/context1'', proxyErr = None, mscErr = None,
           downloadResult = Inr ''/tmp/download1'', retrieveConfErr = None,
           parseResult = Inr [''Status'' \<mapsto> VString ''received''],
           respIndFile = ''/tmp/resp1'', respondErr = None,
           uploadResult = Inr ''/tmp/sendconf1'', sendConfResult = Inr StatusNil,
           newUUID = ''e'', historyMessage = Inr (True, Inr True),
           updateErrState = \<lparr>ModemId = [], State = [], MNotificationInd = None,
                             TelepathyErrorNotified = False, ContentPath = []\<rparr>\<rparr>"

definition world0 :: world where
  "world0 = \<lparr>identity = ''sim1'', store = Map.empty, unrespondedTransactions = Map.empty,
             messageHandlers = Map.empty, preferredContext = None, signals = [],
             mNotificationIndChan = [], files = {}\<rparr>"

definition notifA :: MNotificationInd where
  "notifA = \<lparr>UUID = ''a'', TransactionId = ''T1'', RedownloadOfUUID = [], From = ''12345/TYPE=PLMN'',
             Size = 10, Expire = 5000, Received = 900\<rparr>"

definition stateOf :: "string \<Rightarrow> bool \<Rightarrow> MNotificationInd \<Rightarrow> MMSState" where
  "stateOf s notified n = \<lparr>ModemId = ''sim1'', State = s, MNotificationInd = Some n,
                           TelepathyErrorNotified = notified, ContentPath = []\<rparr>"

text \<open>The service holding the record of the first notification in a given state, and its surface.\<close>

definition worldA :: "string \<Rightarrow> bool \<Rightarrow> world" where
  "worldA s notified =
     world0\<lparr>store := [''a'' \<mapsto> stateOf s notified notifA],
            unrespondedTransactions := [''T1'' \<mapsto> ''a''],
            messageHandlers := [''/org/nuntium/mms/sim1/a'' \<mapsto> \<lparr>redownloadChan = True\<rparr>]\<rparr>"

text \<open>The status notifications a list of signals holds for one message path, oldest first.\<close>

fun statusOf :: "string \<Rightarrow> Signal \<Rightarrow> string list" where
  "statusOf path (PropertyChangedSignal p name (VString s)) =
     (if p = path \<and> name = ''Status'' then [s] else [])"
| "statusOf path sig = []"

definition statusesEmitted :: "string \<Rightarrow> Signal list \<Rightarrow> string list" where
  "statusesEmitted path sigs = concat (map (statusOf path) sigs)"

text \<open>The surface events a list of signals holds: the \<^verbatim>\<open>MessageAdded\<close> signals.\<close>

fun isAdded :: "Signal \<Rightarrow> bool" where
  "isAdded (MessageAddedSignal path properties) = True"
| "isAdded sig = False"

definition surfaceEvents :: "world \<Rightarrow> nat" where
  "surfaceEvents w = length (filter isAdded (signals w))"

text \<open>An outgoing message \<^verbatim>\<open>m1\<close> whose surface is registered and whose M-Send.req is encoded.\<close>

definition worldOut :: world where
  "worldOut = world0\<lparr>messageHandlers := [''/org/nuntium/mms/sim1/m1'' \<mapsto> \<lparr>redownloadChan = False\<rparr>],
                     files := {''/tmp/send1''}\<rparr>"

text \<open>The pushes of the examples arrive at the modem \<^verbatim>\<open>sim1\<close>.\<close>

definition pushed :: "env \<Rightarrow> MNotificationInd \<Rightarrow> world \<Rightarrow> world" where
  "pushed e n w = push e ''sim1'' n w"

text \<open>A second push of transaction \<^verbatim>\<open>T1\<close>, and an environment whose proxy lookup fails.\<close>

definition notifB :: MNotificationInd where
  "notifB = notifA\<lparr>UUID := ''b'', Received := 950\<rparr>"

definition envNoProxy :: env where
  "envNoProxy = env0\<lparr>proxyErr := Some ''no proxy''\<rparr>"

text \<open>An environment in which the facade cannot parse the downloaded message.\<close>

definition envNoParse :: env where
  "envNoParse = env0\<lparr>parseResult := Inl ''no content''\<rparr>"

text \<open>
  The first notification stored by its push and, before the loop has started its handler,
  met by the startup pass of \<^verbatim>\<open>IdentityAdded\<close>: the pass finds the record in state
  \<^verbatim>\<open>notification\<close>, not error-notified, and sends the stored notification to the mediator
  as well.
\<close>

definition queuedTwice :: world where
  "queuedTwice =
     initializeMessages (\<lambda>uuid. env0) ''sim1'' [''a'']
       (handlePushAgentNotification env0 (Some notifA) ''sim1'' world0)"

text \<open>The first of the two notifications handled, every adapter succeeding.\<close>

definition handledOnce :: world where
  "handledOnce = handleMNotificationInd env0 notifA queuedTwice"

section \<open>Properties\<close>

subsection \<open>Object paths\<close>

lemma state_distinct [simp]:
  "NOTIFICATION \<noteq> DOWNLOADED" "NOTIFICATION \<noteq> RECEIVED" "NOTIFICATION \<noteq> RESPONDED"
  "DOWNLOADED \<noteq> NOTIFICATION" "DOWNLOADED \<noteq> RECEIVED" "DOWNLOADED \<noteq> RESPONDED"
  "RECEIVED \<noteq> NOTIFICATION" "RECEIVED \<noteq> DOWNLOADED" "RECEIVED \<noteq> RESPONDED"
  "RESPONDED \<noteq> NOTIFICATION" "RESPONDED \<noteq> DOWNLOADED" "RESPONDED \<noteq> RECEIVED"
  by (simp_all add: NOTIFICATION_def DOWNLOADED_def RECEIVED_def RESPONDED_def)

text \<open>The last element of a path that ends in a slash-free, non-empty name is that name.\<close>

lemma Base_append_slash:
  assumes "u \<noteq> []" "CHR ''/'' \<notin> set u"
  shows "Base (p @ ''/'' @ u) = u"
proof -
  from assms(1) obtain x xs where r: "rev u = x # xs" by (cases "rev u") auto
  have "x \<in> set u" using r by (metis list.set_intros(1) set_rev)
  then have x: "x \<noteq> CHR ''/''" using assms(2) by auto
  have dw: "dropWhile (\<lambda>c. c = CHR ''/'') (rev (p @ ''/'' @ u)) = rev (p @ ''/'' @ u)"
    using r x by simp
  have all: "\<forall>c\<in>set (rev u). c \<noteq> CHR ''/''" using assms(2) by auto
  have tw: "takeWhile (\<lambda>c. c \<noteq> CHR ''/'') (rev u @ CHR ''/'' # rev p) = rev u"
    using all by (simp add: takeWhile_tail)
  show ?thesis using assms(1) dw tw by (simp add: Base_def Let_def)
qed

text \<open>
  A UUID is well formed when it can be read back from the message path generated for it:
  it is not empty, holds no slash and is neither \<^verbatim>\<open>.\<close> nor \<^verbatim>\<open>..\<close>.
\<close>

lemma getUUID_GenMessagePath:
  assumes "u \<noteq> []" "CHR ''/'' \<notin> set u" "u \<noteq> ''.''" "u \<noteq> ''..''"
  shows "getUUIDFromObjectPath (GenMessagePath w u) = Inr u"
proof -
  have "GenMessagePath w u = (MMS_DBUS_PATH @ ''/'' @ identity w) @ ''/'' @ u"
    by (simp add: GenMessagePath_def)
  then have "Base (GenMessagePath w u) = u" using Base_append_slash[OF assms(1,2)] by metis
  moreover have "GenMessagePath w u \<noteq> []" by (simp add: GenMessagePath_def MMS_DBUS_PATH_def)
  ultimately show ?thesis using assms by (simp add: getUUIDFromObjectPath_def Let_def)
qed

subsection \<open>The feature flag\<close>

text \<open>
  Claim C9.  \<^verbatim>\<open>mmsEnabled\<close> returns true on every failure path: when the connection to the
  bus fails, when the current user cannot be looked up, when the property call fails or is
  answered by an error reply, and when the reply does not decode.  It returns false only
  when every step succeeded and the accounts service reported the flag as false.
\<close>

theorem mmsEnabled_default_true:
  "(connectErr a \<noteq> None \<or> currentUserErr a \<noteq> None \<or> callErr a \<noteq> None \<or> replyIsError a
      \<or> argsErr a \<noteq> None \<longrightarrow> mmsEnabled a = Returns True)
   \<and> (mmsEnabled a = Returns False \<longleftrightarrow>
        connectErr a = None \<and> currentUserErr a = None \<and> callErr a = None \<and> \<not> replyIsError a
        \<and> argsErr a = None \<and> replyValue a = VBool False)"
  by (auto simp: mmsEnabled_def split: Variant.splits)

text \<open>A query whose reply does not decode is answered true; a clean reply of false is answered false.\<close>

theorem mmsEnabled_default_true_witness:
  "mmsEnabled \<lparr>connectErr = None, currentUserErr = None, callErr = None, replyIsError = False,
               argsErr = Some ''no variant'', replyValue = VOther\<rparr> = Returns True
   \<and> mmsEnabled \<lparr>connectErr = None, currentUserErr = None, callErr = None, replyIsError = False,
                 argsErr = None, replyValue = VBool False\<rparr> = Returns False"
  using mmsEnabled_default_true [of "\<lparr>connectErr = None, currentUserErr = None, callErr = None,
          replyIsError = False, argsErr = Some ''no variant'', replyValue = VOther\<rparr>"]
        mmsEnabled_default_true [of "\<lparr>connectErr = None, currentUserErr = None, callErr = None,
          replyIsError = False, argsErr = None, replyValue = VBool False\<rparr>"]
  by simp

subsection \<open>The user's redownload request\<close>

lemma world_chan_neq: "mNotificationIndChan w' = mNotificationIndChan w @ [n] \<Longrightarrow> w' \<noteq> w"
  by auto

text \<open>
  Claim C10.  A redownload request is honoured only when the surface's record is in the
  store, in state \<^verbatim>\<open>notification\<close>, and holds a notification.  In every other case (the
  state cannot be read, the record is in another state, or it holds no notification) the
  request changes nothing: the state after it is the state before it, with the same
  surfaces, the same store and nothing sent to the mediator.
\<close>

theorem redownload_guard:
  "watchMessageRedownloadCalls e p w = w \<longleftrightarrow>
     \<not> (\<exists>st n. getMMSState p w = Inr st \<and> State st = NOTIFICATION \<and> MNotificationInd st = Some n)"
proof (cases "\<exists>st n. getMMSState p w = Inr st \<and> State st = NOTIFICATION \<and> MNotificationInd st = Some n")
  case False
  then show ?thesis
    by (auto simp: watchMessageRedownloadCalls_def split: sum.splits option.splits)
next
  case True
  then obtain st n where h: "getMMSState p w = Inr st" "State st = NOTIFICATION" "MNotificationInd st = Some n"
    by blast
  let ?n = "n\<lparr>RedownloadOfUUID := UUID n, UUID := newUUID e\<rparr>"
  have "mNotificationIndChan (watchMessageRedownloadCalls e p w) = mNotificationIndChan w @ [?n]"
    using h by (simp add: watchMessageRedownloadCalls_def Let_def MessageRemoved_def Create_def Destroy_def
        SingnalMessageRemoved_def send_def split: option.splits sum.splits prod.splits)
  then have "watchMessageRedownloadCalls e p w \<noteq> w" by (rule world_chan_neq)
  with True show ?thesis by blast
qed

subsection \<open>Frame lemmas of the facade\<close>




lemma getUUID_a: "getUUIDFromObjectPath ''/org/nuntium/mms/sim1/a'' = Inr ''a''"
  by (simp add: getUUIDFromObjectPath_def Base_def)

lemma statusesEmitted_append [simp]:
  "statusesEmitted path (xs @ ys) = statusesEmitted path xs @ statusesEmitted path ys"
  by (simp add: statusesEmitted_def)

lemma SetPreferredContext_frame:
  "messageHandlers (snd (SetPreferredContext e c w)) = messageHandlers w"
  "identity (snd (SetPreferredContext e c w)) = identity w"
  "files (snd (SetPreferredContext e c w)) = files w"
  "store (snd (SetPreferredContext e c w)) = store w"
  "unrespondedTransactions (snd (SetPreferredContext e c w)) = unrespondedTransactions w"
  "mNotificationIndChan (snd (SetPreferredContext e c w)) = mNotificationIndChan w"
  "statusesEmitted path (signals (snd (SetPreferredContext e c w))) = statusesEmitted path (signals w)"
  "filter isAdded (signals (snd (SetPreferredContext e c w))) = filter isAdded (signals w)"
  by (auto simp: SetPreferredContext_def send_def statusesEmitted_def split: sum.splits)

lemma uploadFile_frame:
  "messageHandlers (snd (uploadFile e f w)) = messageHandlers w"
  "identity (snd (uploadFile e f w)) = identity w"
  "statusesEmitted path (signals (snd (uploadFile e f w))) = statusesEmitted path (signals w)"
  by (auto simp: uploadFile_def Let_def SetPreferredContext_frame split: sum.splits option.splits)

lemma GenMessagePath_cong: "identity w' = identity w \<Longrightarrow> GenMessagePath w' u = GenMessagePath w u"
  by (simp add: GenMessagePath_def)

subsection \<open>The user's delete request\<close>

text \<open>
  Claim C6, as the code has it.  A delete request is refused (the state is returned as it
  was) when the surface's record is in the store, its state is not \<^verbatim>\<open>responded\<close>, it holds a
  notification and the notification has not expired.  In every other case the facade calls
  \<^verbatim>\<open>MessageRemoved\<close>: for a registered surface whose path names a UUID, when the store and
  the bus work, the object is closed, the record destroyed and the removal broadcast.
\<close>

theorem delete_policy:
  "((\<exists>st n. getMMSState p w = Inr st \<and> State st \<noteq> RESPONDED \<and> MNotificationInd st = Some n
            \<and> \<not> Expired (now e) n)
      \<longrightarrow> watchMessageDeleteCalls e p w = w)
   \<and> (\<not> (\<exists>st n. getMMSState p w = Inr st \<and> State st \<noteq> RESPONDED \<and> MNotificationInd st = Some n
               \<and> \<not> Expired (now e) n)
        \<and> messageHandlers w p \<noteq> None \<and> getUUIDFromObjectPath p = Inr u
        \<and> storageOk e OpDestroy u \<and> sendOk e (MessageRemovedSignal p)
      \<longrightarrow> messageHandlers (watchMessageDeleteCalls e p w) p = None
          \<and> store (watchMessageDeleteCalls e p w) u = None
          \<and> signals (watchMessageDeleteCalls e p w) = signals w @ [MessageRemovedSignal p])"
  by (auto simp: watchMessageDeleteCalls_def MessageRemoved_def Destroy_def SingnalMessageRemoved_def
      send_def Let_def split: sum.splits option.splits)

text \<open>
  A downloaded, unexpired record is refused; a responded record is deleted.
\<close>

theorem delete_policy_witness:
  "watchMessageDeleteCalls env0 ''/org/nuntium/mms/sim1/a'' (worldA DOWNLOADED True) = worldA DOWNLOADED True
   \<and> messageHandlers (watchMessageDeleteCalls env0 ''/org/nuntium/mms/sim1/a'' (worldA RESPONDED False))
        ''/org/nuntium/mms/sim1/a'' = None
   \<and> store (watchMessageDeleteCalls env0 ''/org/nuntium/mms/sim1/a'' (worldA RESPONDED False)) ''a'' = None
   \<and> signals (watchMessageDeleteCalls env0 ''/org/nuntium/mms/sim1/a'' (worldA RESPONDED False))
       = [MessageRemovedSignal ''/org/nuntium/mms/sim1/a'']"
  using delete_policy [of "''/org/nuntium/mms/sim1/a''" "worldA DOWNLOADED True" env0 "''a''"]
        delete_policy [of "''/org/nuntium/mms/sim1/a''" "worldA RESPONDED False" env0 "''a''"]
  by (simp add: getMMSState_def getUUID_a GetMMSState_def worldA_def world0_def stateOf_def
      notifA_def env0_def Expired_def)

text \<open>
  The claim as stated fails: a record in state \<^verbatim>\<open>received\<close> (not \<^verbatim>\<open>notification\<close>) whose
  notification has not expired keeps its surface and its record; the request is refused.
\<close>

theorem delete_policy_counterexample:
  "State (stateOf RECEIVED False notifA) \<noteq> NOTIFICATION
   \<and> messageHandlers (worldA RECEIVED False) ''/org/nuntium/mms/sim1/a'' \<noteq> None
   \<and> watchMessageDeleteCalls env0 ''/org/nuntium/mms/sim1/a'' (worldA RECEIVED False) = worldA RECEIVED False"
  by (simp add: watchMessageDeleteCalls_def getMMSState_def getUUID_a GetMMSState_def worldA_def
      world0_def stateOf_def notifA_def env0_def Expired_def)

subsection \<open>The failure surface\<close>

text \<open>
  Claim C7.  Unless a debug error is forced, \<^verbatim>\<open>IncomingMessageFailAdded\<close> registers a surface
  whose redownload channel is present iff the download error allows redownload and the
  notification has not expired.  When the call returns no error it has broadcast one
  \<^verbatim>\<open>MessageAdded\<close> signal for the notification's path whose properties hold: under
  \<^verbatim>\<open>Error\<close> the JSON object with the error's code and message (and the expiry, the size
  when it is not zero, the mobile-data flag when it could be read); under
  \<^verbatim>\<open>AllowRedownload\<close> that same condition; and under \<^verbatim>\<open>DeleteEvent\<close> the path of the
  surface of \<^verbatim>\<open>RedownloadOfUUID\<close>, exactly when that back-reference is not empty.  When the
  call returns an error nothing was broadcast.
\<close>

theorem fail_added_surface:
  assumes "popDebugError e DebugErrorTelepathyErrorNotify = None"
  shows "messageHandlers (snd (IncomingMessageFailAdded e n err w)) (GenMessagePath w (UUID n))
        = Some \<lparr>redownloadChan = (errAllowRedownload err = Some True \<and> \<not> Expired (now e) n)\<rparr>
    \<and> (fst (IncomingMessageFailAdded e n err w) \<noteq> None
        \<longrightarrow> signals (snd (IncomingMessageFailAdded e n err w)) = signals w)
    \<and> (fst (IncomingMessageFailAdded e n err w) = None
        \<longrightarrow> (\<exists>props j.
              signals (snd (IncomingMessageFailAdded e n err w))
                = signals w @ [MessageAddedSignal (GenMessagePath w (UUID n)) props]
            \<and> props ''Error'' = Some (VError j)
            \<and> Code j = (case errCode err of Some c \<Rightarrow> c | None \<Rightarrow> ''x-ubports-nuntium-mms-error-unknown'')
            \<and> Message j = errMessage err
            \<and> ExpireJ j = Some (Expire n)
            \<and> SizeJ j = (if Size n = 0 then None else Some (Size n))
            \<and> MobileData j = mobileDataEnabled e
            \<and> props ''AllowRedownload''
                = Some (VBool (errAllowRedownload err = Some True \<and> \<not> Expired (now e) n))
            \<and> props ''DeleteEvent''
                = (if RedownloadOfUUID n = [] then None
                   else Some (VString (GenMessagePath w (RedownloadOfUUID n))))))"
proof -
  let ?allow = "errAllowRedownload err = Some True \<and> \<not> Expired (now e) n"
  have a: "(if (case errAllowRedownload err of Some a \<Rightarrow> a | None \<Rightarrow> False) \<and> Expired (now e) n
            then False else (case errAllowRedownload err of Some a \<Rightarrow> a | None \<Rightarrow> False)) = ?allow"
    by (auto split: option.splits)
  show ?thesis
    using assms unfolding IncomingMessageFailAdded_def Let_def MessageAdded_def send_def a
    by (simp split: option.splits)
qed

text \<open>A proxy failure of an unexpired redownload: the surface has a redownload channel.\<close>

theorem fail_added_surface_witness:
  "popDebugError env0 DebugErrorTelepathyErrorNotify = None
   \<and> messageHandlers
        (snd (IncomingMessageFailAdded env0 (notifA\<lparr>UUID := ''e'', RedownloadOfUUID := ''a''\<rparr>)
                (downloadError (standartizedError ''no proxy'' ErrorGetProxy)) world0))
        (GenMessagePath world0 ''e'') = Some \<lparr>redownloadChan = True\<rparr>
   \<and> fst (IncomingMessageFailAdded env0 (notifA\<lparr>UUID := ''e'', RedownloadOfUUID := ''a''\<rparr>)
                (downloadError (standartizedError ''no proxy'' ErrorGetProxy)) world0) = None"
proof -
  have h: "popDebugError env0 DebugErrorTelepathyErrorNotify = None" by (simp add: env0_def)
  have ok: "fst (IncomingMessageFailAdded env0 (notifA\<lparr>UUID := ''e'', RedownloadOfUUID := ''a''\<rparr>)
                (downloadError (standartizedError ''no proxy'' ErrorGetProxy)) world0) = None"
    by (simp add: IncomingMessageFailAdded_def env0_def MessageAdded_def send_def Let_def)
  from h ok fail_added_surface [OF h, of "notifA\<lparr>UUID := ''e'', RedownloadOfUUID := ''a''\<rparr>"
      "downloadError (standartizedError ''no proxy'' ErrorGetProxy)" world0]
  show ?thesis
    by (simp add: env0_def notifA_def downloadError_def standartizedError_def Expired_def)
qed

subsection \<open>Redownload\<close>



subsection \<open>The outbound submission\<close>

text \<open>
  Claim C8.  After \<^verbatim>\<open>sendMSendReq\<close>, whatever happened, the surface object of the message
  is destroyed and the M-Send.req file is deleted.  When the upload succeeded and the
  response decoded to an M-Send.conf, the response file is deleted too, and (the surface
  being registered and the bus taking the signal) exactly one status is emitted on the
  surface: \<^verbatim>\<open>sent\<close> for a nil status, \<^verbatim>\<open>permanent-error\<close> for a permanent one,
  \<^verbatim>\<open>transient-error\<close> for a transient one.
\<close>

theorem send_status:
  "messageHandlers (sendMSendReq e mSendReqFile uuid w) (GenMessagePath w uuid) = None
   \<and> mSendReqFile \<notin> files (sendMSendReq e mSendReqFile uuid w)
   \<and> (\<forall>mSendConfFile mSendConf.
         fst (uploadFile e mSendReqFile w) = Inr mSendConfFile \<and> sendConfResult e = Inr mSendConf
         \<longrightarrow> mSendConfFile \<notin> files (sendMSendReq e mSendReqFile uuid w)
            \<and> (messageHandlers w (GenMessagePath w uuid) \<noteq> None
                \<and> sendOk e (PropertyChangedSignal (GenMessagePath w uuid) ''Status''
                     (VString (case mSendConf of StatusNil \<Rightarrow> SENT_STATUS
                               | ErrPermanent \<Rightarrow> PERMANENT_ERROR
                               | ErrTransient \<Rightarrow> TRANSIENT_ERROR | ErrOther \<Rightarrow> [])))
                \<longrightarrow> statusesEmitted (GenMessagePath w uuid) (signals (sendMSendReq e mSendReqFile uuid w))
                    = statusesEmitted (GenMessagePath w uuid) (signals w)
                      @ [case mSendConf of StatusNil \<Rightarrow> SENT_STATUS
                         | ErrPermanent \<Rightarrow> PERMANENT_ERROR
                         | ErrTransient \<Rightarrow> TRANSIENT_ERROR | ErrOther \<Rightarrow> []]))"
proof -
  obtain r w1 where up: "uploadFile e mSendReqFile w = (r, w1)" by (cases "uploadFile e mSendReqFile w")
  have f1: "messageHandlers w1 = messageHandlers w" "identity w1 = identity w"
    "\<And>path. statusesEmitted path (signals w1) = statusesEmitted path (signals w)"
    using uploadFile_frame[where e=e and f=mSendReqFile and w=w] up by simp_all
  have p: "\<And>w'. identity w' = identity w \<Longrightarrow> GenMessagePath w' uuid = GenMessagePath w uuid"
    by (rule GenMessagePath_cong)
  show ?thesis
    unfolding sendMSendReq_def up Let_def
    using f1
    by (auto simp: MessageDestroy_def MessageStatusChanged_def StatusChanged_def send_def Let_def
        GenMessagePath_def statusesEmitted_def
        split: sum.splits option.splits SendConfStatus.splits)
qed

text \<open>Scenario 6 of the spec: the M-Send.conf carries a permanent status.\<close>

theorem send_status_witness:
  "fst (uploadFile (env0\<lparr>sendConfResult := Inr ErrPermanent\<rparr>) ''/tmp/send1'' worldOut) = Inr ''/tmp/sendconf1''
   \<and> statusesEmitted ''/org/nuntium/mms/sim1/m1''
        (signals (sendMSendReq (env0\<lparr>sendConfResult := Inr ErrPermanent\<rparr>) ''/tmp/send1'' ''m1'' worldOut))
      = [PERMANENT_ERROR]
   \<and> messageHandlers (sendMSendReq (env0\<lparr>sendConfResult := Inr ErrPermanent\<rparr>) ''/tmp/send1'' ''m1'' worldOut)
        ''/org/nuntium/mms/sim1/m1'' = None
   \<and> ''/tmp/send1'' \<notin> files
        (sendMSendReq (env0\<lparr>sendConfResult := Inr ErrPermanent\<rparr>) ''/tmp/send1'' ''m1'' worldOut)
   \<and> ''/tmp/sendconf1'' \<notin> files
        (sendMSendReq (env0\<lparr>sendConfResult := Inr ErrPermanent\<rparr>) ''/tmp/send1'' ''m1'' worldOut)"
proof -
  have p: "GenMessagePath worldOut ''m1'' = ''/org/nuntium/mms/sim1/m1''"
    by (simp add: GenMessagePath_def MMS_DBUS_PATH_def worldOut_def world0_def)
  have u: "fst (uploadFile (env0\<lparr>sendConfResult := Inr ErrPermanent\<rparr>) ''/tmp/send1'' worldOut)
             = Inr ''/tmp/sendconf1''"
    by (simp add: uploadFile_def env0_def Let_def)
  have s: "statusesEmitted ''/org/nuntium/mms/sim1/m1'' (signals worldOut) = []"
    by (simp add: statusesEmitted_def worldOut_def world0_def)
  from send_status [of "env0\<lparr>sendConfResult := Inr ErrPermanent\<rparr>" "''/tmp/send1''" "''m1''" worldOut]
  show ?thesis
    unfolding p using u s
    by (simp add: env0_def worldOut_def world0_def)
qed

subsection \<open>Evaluating handler runs\<close>

text \<open>The definitions a concrete run of a handler unfolds to.\<close>

lemmas handler_defs =
  pushed_def push_def handlePushAgentNotification_def handleMNotificationInd_def addUnresponded_def
  download_def forward_def respond_def getAndHandleMRetrieveConf_def handleMessageDownloadError_def
  IncomingMessageFailAdded_def IncomingMessageAdded_def MessageAdded_def MessageRemoved_def
  SingnalMessageRemoved_def send_def SetPreferredContext_def GetPreferredContext_def
  Create_def GetMMSState_def advance_def UpdateDownloaded_def UpdateReceived_def
  UpdateResponded_def UpdateMNotificationInd_def SetTelepathyErrorNotified_def Destroy_def
  handleMNotifyRespInd_def sendMNotifyRespInd_def debugMMSContextError_def
  GenMessagePath_def MMS_DBUS_PATH_def getUUIDFromObjectPath_def Base_def
  downloadError_def standartizedError_def Expired_def IsZero_def zeroTime_def

lemmas concrete_defs = env0_def envNoProxy_def envNoParse_def world0_def notifA_def notifB_def

text \<open>
  Scenario 3 of the spec, first half: the push of transaction \<^verbatim>\<open>T1\<close> under UUID \<^verbatim>\<open>a\<close>; the
  proxy lookup fails.  One error surface is announced, the record is marked error-notified
  and the registry points at it.
\<close>

lemma first_push_fails:
  "pushed envNoProxy notifA world0 =
     world0\<lparr>store := [''a'' \<mapsto> stateOf NOTIFICATION True notifA],
            unrespondedTransactions := [''T1'' \<mapsto> ''a''],
            messageHandlers := [''/org/nuntium/mms/sim1/a'' \<mapsto> \<lparr>redownloadChan = True\<rparr>],
            preferredContext := Some ''/ril_0/context1'',
            signals :=
              [PropertyChangedSignal ''/org/nuntium/mms/sim1'' ''PreferredContext''
                 (VObjectPath ''/ril_0/context1''),
               MessageAddedSignal ''/org/nuntium/mms/sim1/a''
                 [''Status'' \<mapsto> VString ''received'', ''Date'' \<mapsto> VTime 1000,
                  ''Sender'' \<mapsto> VString ''12345'',
                  ''Error'' \<mapsto> VError \<lparr>Code = ErrorGetProxy, Message = ''no proxy'',
                     ExpireJ = Some 5000, SizeJ = Some 10, MobileData = Some True\<rparr>,
                  ''AllowRedownload'' \<mapsto> VBool True, ''Received'' \<mapsto> VUint32 900]],
            mNotificationIndChan := [notifA]\<rparr>"
  by (simp add: handler_defs concrete_defs stateOf_def Let_def TrimSuffix_def PLMN_def)

subsection \<open>The registry on a new notification\<close>

text \<open>
  Claim C2.  A pushed notification with a non-empty transaction-id is sent to the mediator
  under its own UUID and transaction-id, and after the first block of
  \<^verbatim>\<open>handleMNotificationInd\<close>: if the id was not in the registry, it points at the new UUID;
  if it was, but the UUID it pointed at had no record in the store, it points at the new
  UUID; otherwise the pointer is as it was, and the notification's \<^verbatim>\<open>Received\<close> is the one
  of the notification stored in the pointed record.  No other entry of the registry
  changes.
\<close>

theorem registry_on_new_notification:
  assumes "TransactionId n \<noteq> []"
  shows "mNotificationIndChan (handlePushAgentNotification e (Some n) modemId w) \<noteq> []
    \<and> UUID (last (mNotificationIndChan (handlePushAgentNotification e (Some n) modemId w))) = UUID n
    \<and> TransactionId (last (mNotificationIndChan (handlePushAgentNotification e (Some n) modemId w)))
        = TransactionId n
    \<and> (unrespondedTransactions w (TransactionId n) = None \<longrightarrow>
         unrespondedTransactions
           (addUnresponded (last (mNotificationIndChan (handlePushAgentNotification e (Some n) modemId w)))
              (handlePushAgentNotification e (Some n) modemId w)) (TransactionId n) = Some (UUID n))
    \<and> (\<forall>u. unrespondedTransactions w (TransactionId n) = Some u \<and> store w u = None \<longrightarrow>
         unrespondedTransactions
           (addUnresponded (last (mNotificationIndChan (handlePushAgentNotification e (Some n) modemId w)))
              (handlePushAgentNotification e (Some n) modemId w)) (TransactionId n) = Some (UUID n))
    \<and> (\<forall>u st. unrespondedTransactions w (TransactionId n) = Some u \<and> store w u = Some st \<longrightarrow>
         unrespondedTransactions
           (addUnresponded (last (mNotificationIndChan (handlePushAgentNotification e (Some n) modemId w)))
              (handlePushAgentNotification e (Some n) modemId w)) (TransactionId n) = Some u
         \<and> (\<forall>stored. MNotificationInd st = Some stored \<longrightarrow>
              Received (last (mNotificationIndChan (handlePushAgentNotification e (Some n) modemId w)))
                = Received stored))
    \<and> (\<forall>t. t \<noteq> TransactionId n \<longrightarrow>
         unrespondedTransactions
           (addUnresponded (last (mNotificationIndChan (handlePushAgentNotification e (Some n) modemId w)))
              (handlePushAgentNotification e (Some n) modemId w)) t = unrespondedTransactions w t)"
  using assms
  by (auto simp: handlePushAgentNotification_def addUnresponded_def GetMMSState_def Create_def Let_def
      split: option.splits sum.splits if_splits)

text \<open>
  The second push of \<^verbatim>\<open>T1\<close>, under UUID \<^verbatim>\<open>b\<close>: into an empty registry; into a registry
  that points at a UUID without a record; and after the first push, whose reception time
  900 it takes over.
\<close>

theorem registry_on_new_notification_witness:
  "TransactionId notifB \<noteq> []
   \<and> unrespondedTransactions
        (addUnresponded (last (mNotificationIndChan (handlePushAgentNotification env0 (Some notifB) ''sim1'' world0)))
           (handlePushAgentNotification env0 (Some notifB) ''sim1'' world0)) ''T1'' = Some ''b''
   \<and> unrespondedTransactions
        (addUnresponded (last (mNotificationIndChan (handlePushAgentNotification env0 (Some notifB) ''sim1''
              (world0\<lparr>unrespondedTransactions := [''T1'' \<mapsto> ''a'']\<rparr>))))
           (handlePushAgentNotification env0 (Some notifB) ''sim1''
              (world0\<lparr>unrespondedTransactions := [''T1'' \<mapsto> ''a'']\<rparr>))) ''T1'' = Some ''b''
   \<and> unrespondedTransactions
        (addUnresponded (last (mNotificationIndChan (handlePushAgentNotification env0 (Some notifB) ''sim1''
              (worldA NOTIFICATION True))))
           (handlePushAgentNotification env0 (Some notifB) ''sim1'' (worldA NOTIFICATION True))) ''T1'' = Some ''a''
   \<and> Received (last (mNotificationIndChan (handlePushAgentNotification env0 (Some notifB) ''sim1''
              (worldA NOTIFICATION True)))) = 900"
proof -
  have h: "TransactionId notifB \<noteq> []" by (simp add: notifB_def notifA_def)
  have t: "TransactionId notifB = ''T1''" "UUID notifB = ''b''" by (simp_all add: notifB_def notifA_def)
  note r = registry_on_new_notification [OF h, of env0 "''sim1''"]
  from r [of world0] r [of "world0\<lparr>unrespondedTransactions := [''T1'' \<mapsto> ''a'']\<rparr>"]
    r [of "worldA NOTIFICATION True"] h
  show ?thesis
    unfolding t by (simp add: world0_def worldA_def stateOf_def notifA_def)
qed

subsection \<open>Surfacing a download error\<close>

text \<open>
  Claim C1, as the code has it.  When the notification has a transaction-id, is no
  redownload, and the registry points for its transaction at another UUID whose record is
  in the store and is error-notified or in state \<^verbatim>\<open>received\<close> or \<^verbatim>\<open>responded\<close>, then
  \<^verbatim>\<open>handleMessageDownloadError\<close> sends no signal, registers no surface, leaves the registry
  as it is and destroys the duplicate's record (unless the store fails, which leaves the
  store as it is).
\<close>

theorem download_error_suppressed:
  assumes "TransactionId n \<noteq> []" and "RedownloadOfUUID n = []"
    and "unrespondedTransactions w (TransactionId n) = Some u" and "u \<noteq> UUID n"
    and "store w u = Some st"
    and "TelepathyErrorNotified st \<or> State st = RECEIVED \<or> State st = RESPONDED"
  shows "signals (handleMessageDownloadError e n err w) = signals w
    \<and> messageHandlers (handleMessageDownloadError e n err w) = messageHandlers w
    \<and> unrespondedTransactions (handleMessageDownloadError e n err w) = unrespondedTransactions w
    \<and> store (handleMessageDownloadError e n err w)
        = (if storageOk e OpDestroy (UUID n) then (store w)(UUID n := None) else store w)"
  using assms
  by (simp add: handleMessageDownloadError_def Let_def GetMMSState_def Destroy_def)

text \<open>Scenario 3 of the spec, second half: the second push fails after the first was announced.\<close>

theorem download_error_suppressed_witness:
  "unrespondedTransactions (worldA NOTIFICATION True) (TransactionId notifB) = Some ''a''
   \<and> store (worldA NOTIFICATION True) ''a'' = Some (stateOf NOTIFICATION True notifA)
   \<and> signals (handleMessageDownloadError env0 notifB
        (downloadError (standartizedError ''no proxy'' ErrorGetProxy))
        ((worldA NOTIFICATION True)\<lparr>store := (store (worldA NOTIFICATION True))(''b'' \<mapsto> stateOf NOTIFICATION False notifB)\<rparr>)) = []
   \<and> store (handleMessageDownloadError env0 notifB
        (downloadError (standartizedError ''no proxy'' ErrorGetProxy))
        ((worldA NOTIFICATION True)\<lparr>store := (store (worldA NOTIFICATION True))(''b'' \<mapsto> stateOf NOTIFICATION False notifB)\<rparr>)) ''b'' = None"
proof -
  let ?w = "(worldA NOTIFICATION True)\<lparr>store := (store (worldA NOTIFICATION True))(''b'' \<mapsto> stateOf NOTIFICATION False notifB)\<rparr>"
  have h1: "TransactionId notifB \<noteq> []" by (simp add: notifB_def notifA_def)
  have h2: "RedownloadOfUUID notifB = []" by (simp add: notifB_def notifA_def)
  have h3: "unrespondedTransactions ?w (TransactionId notifB) = Some ''a''"
    by (simp add: notifB_def notifA_def worldA_def world0_def)
  have h4: "''a'' \<noteq> UUID notifB" by (simp add: notifB_def notifA_def)
  have h5: "store ?w ''a'' = Some (stateOf NOTIFICATION True notifA)"
    by (simp add: worldA_def world0_def)
  have h6: "TelepathyErrorNotified (stateOf NOTIFICATION True notifA)
      \<or> State (stateOf NOTIFICATION True notifA) = RECEIVED
      \<or> State (stateOf NOTIFICATION True notifA) = RESPONDED" by (simp add: stateOf_def)
  from download_error_suppressed [OF h1 h2 h3 h4 h5 h6, of env0
      "downloadError (standartizedError ''no proxy'' ErrorGetProxy)"]
  show ?thesis
    by (simp add: worldA_def world0_def env0_def notifB_def notifA_def)
qed

text \<open>
  The bound of one surface event per transaction does not hold: the first push of \<^verbatim>\<open>T1\<close>
  fails and is announced as an error; the operator pushes \<^verbatim>\<open>T1\<close> again, the download
  succeeds, and the message is announced (with \<^verbatim>\<open>DeleteEvent\<close> naming the error surface).
  No redownload was requested, and two surface events were sent.
\<close>

theorem surface_events_counterexample:
  "surfaceEvents (pushed env0 notifB (pushed envNoProxy notifA world0)) = 2"
  unfolding first_push_fails
  by (simp add: surfaceEvents_def handler_defs concrete_defs stateOf_def Let_def)

text \<open>
  Claim C3, evaluated.  The first push of \<^verbatim>\<open>T1\<close> (UUID \<^verbatim>\<open>a\<close>) fails and is announced; the
  second (UUID \<^verbatim>\<open>b\<close>) is downloaded but cannot be forwarded, so its error supersedes the
  first: the error surface of \<^verbatim>\<open>b\<close> is added, then the surface and the record of \<^verbatim>\<open>a\<close>
  are removed and the registry points at \<^verbatim>\<open>b\<close>.  The record of \<^verbatim>\<open>b\<close> itself is destroyed
  as well: the branch taken when \<^verbatim>\<open>MessageRemoved\<close> succeeds calls \<^verbatim>\<open>storage.Destroy\<close> on
  the new notification's UUID.
\<close>

theorem supersede_destroys_new_record:
  "store (pushed envNoProxy notifA world0) ''a'' = Some (stateOf NOTIFICATION True notifA)
   \<and> unrespondedTransactions (pushed envNoProxy notifA world0) ''T1'' = Some ''a''
   \<and> store (pushed envNoParse notifB (pushed envNoProxy notifA world0)) ''b'' = None
   \<and> store (pushed envNoParse notifB (pushed envNoProxy notifA world0)) ''a'' = None
   \<and> unrespondedTransactions (pushed envNoParse notifB (pushed envNoProxy notifA world0)) ''T1'' = Some ''b''
   \<and> messageHandlers (pushed envNoParse notifB (pushed envNoProxy notifA world0))
        ''/org/nuntium/mms/sim1/b'' = Some \<lparr>redownloadChan = False\<rparr>
   \<and> messageHandlers (pushed envNoParse notifB (pushed envNoProxy notifA world0))
        ''/org/nuntium/mms/sim1/a'' = None"
  unfolding first_push_fails
  by (simp add: handler_defs concrete_defs stateOf_def Let_def)

section \<open>A notification handled twice\<close>

text \<open>
  The loop of \<^verbatim>\<open>Mediator.init\<close> starts \<^verbatim>\<open>handlePushAgentNotification\<close> and
  \<^verbatim>\<open>handleMNotificationInd\<close> as goroutines and runs \<^verbatim>\<open>initializeMessages\<close> itself, on
  \<^verbatim>\<open>IdentityAdded\<close>.  A pushed notification is stored before its handler has taken the record
  out of state \<^verbatim>\<open>notification\<close>: the push is waiting to send on the channel, or its handler
  is waiting for \<^verbatim>\<open>contextLock\<close>, activating the context or downloading.  A startup pass
  that runs in that time finds the record in state \<^verbatim>\<open>notification\<close>, not error-notified,
  and sends the stored notification to the mediator as well.  The handlers run one after
  the other, as each holds \<^verbatim>\<open>contextLock\<close> from its first line to its last.
\<close>

subsection \<open>The two notifications and the first handler\<close>

lemma queuedTwice_eval:
  "mNotificationIndChan queuedTwice = [notifA, notifA]"
  "unrespondedTransactions queuedTwice = [''T1'' \<mapsto> ''a'']"
  "store queuedTwice = [''a'' \<mapsto> stateOf NOTIFICATION False notifA]"
  by (simp_all add: queuedTwice_def initializeMessages_def initializeMessage_def IsIncoming_def
      handlePushAgentNotification_def Create_def GetMMSState_def Let_def stateOf_def
      concrete_defs)

lemma handledOnce_eval:
  "store handledOnce
     = [''a'' \<mapsto> (stateOf RESPONDED False notifA)\<lparr>ContentPath := ''/tmp/download1''\<rparr>]"
  "unrespondedTransactions handledOnce = Map.empty"
  by (simp_all add: handledOnce_def queuedTwice_def initializeMessages_def initializeMessage_def
      IsIncoming_def handler_defs concrete_defs stateOf_def Let_def TrimSuffix_def PLMN_def)

subsection \<open>The second handler, whatever the adapters do\<close>

text \<open>
  \<^verbatim>\<open>handleMessageDownloadError\<close> on a notification the registry points at, that is no
  redownload: the entry stays and the state of the record stays.
\<close>

lemma handleMessageDownloadError_keeps:
  assumes "unrespondedTransactions w (TransactionId n) = Some (UUID n)" "RedownloadOfUUID n = []"
    "store w (UUID n) = Some st"
  shows "unrespondedTransactions (handleMessageDownloadError e n err w) (TransactionId n) = Some (UUID n)
     \<and> map_option State (store (handleMessageDownloadError e n err w) (UUID n)) = Some (State st)"
  using assms
  by (auto simp: handleMessageDownloadError_def IncomingMessageFailAdded_def MessageAdded_def
      send_def SetTelepathyErrorNotified_def UpdateMNotificationInd_def Let_def
      split: option.splits prod.splits if_splits)

text \<open>
  \<^verbatim>\<open>handleMNotificationInd\<close> on a notification whose record is in state \<^verbatim>\<open>responded\<close> and
  whose transaction-id the registry does not hold: its first block inserts the entry
  (it looks at the registry only), every path from there ends in
  \<^verbatim>\<open>handleMessageDownloadError\<close> (the store refuses \<^verbatim>\<open>UpdateDownloaded\<close> on a record that is
  not in state \<^verbatim>\<open>notification\<close>), and the \<^verbatim>\<open>delete\<close> of line 316 is not reached.
\<close>

lemma second_handling:
  assumes "unrespondedTransactions w (TransactionId n) = None" "TransactionId n \<noteq> []"
    "RedownloadOfUUID n = []" "store w (UUID n) = Some st" "State st = RESPONDED"
  shows "unrespondedTransactions (handleMNotificationInd e n w) (TransactionId n) = Some (UUID n)
     \<and> map_option State (store (handleMNotificationInd e n w) (UUID n)) = Some RESPONDED"
proof -
  define w0 where "w0 = addUnresponded n w"
  have a: "unrespondedTransactions w0 (TransactionId n) = Some (UUID n)" "store w0 = store w"
    using assms(1,2) by (simp_all add: w0_def addUnresponded_def)
  have f: "unrespondedTransactions (handleMessageDownloadError e n err V) (TransactionId n) = Some (UUID n)
     \<and> map_option State (store (handleMessageDownloadError e n err V) (UUID n)) = Some RESPONDED"
    if "unrespondedTransactions V (TransactionId n) = Some (UUID n)" "store V (UUID n) = Some st'"
      "State st' = RESPONDED"
    for V err st'
    using handleMessageDownloadError_keeps [OF that(1) assms(3) that(2)] that(3) by simp
  have u: "unrespondedTransactions (snd (UpdateMNotificationInd e n w0)) (TransactionId n) = Some (UUID n)"
    "\<exists>st'. store (snd (UpdateMNotificationInd e n w0)) (UUID n) = Some st' \<and> State st' = RESPONDED"
    using a assms(4,5) by (auto simp: UpdateMNotificationInd_def)
  have p: "unrespondedTransactions (snd (SetPreferredContext e c w0)) (TransactionId n) = Some (UUID n)"
    "store (snd (SetPreferredContext e c w0)) (UUID n) = Some st" for c
    using a assms(4) by (auto simp: SetPreferredContext_def send_def)
  have d: "unrespondedTransactions (download e n V) (TransactionId n) = Some (UUID n)
     \<and> map_option State (store (download e n V) (UUID n)) = Some RESPONDED"
    if "unrespondedTransactions V (TransactionId n) = Some (UUID n)" "store V (UUID n) = Some st'"
      "State st' = RESPONDED"
    for V st'
  proof -
    have "UpdateDownloaded e (UUID n) fp V = (Some ErrorStorage, V)" for fp
      using that(2,3) by (simp add: UpdateDownloaded_def advance_def)
    then show ?thesis using f [OF that] by (simp add: download_def split: sum.splits)
  qed
  show ?thesis
    unfolding handleMNotificationInd_def Let_def w0_def [symmetric]
    using u f d a p assms(4,5)
    by (auto split: option.splits sum.splits)
qed

subsection \<open>The registry points at a responded record\<close>

text \<open>
  Claim C4, evaluated.  The push of transaction \<^verbatim>\<open>T1\<close> (UUID \<^verbatim>\<open>a\<close>) is stored, the startup pass
  of \<^verbatim>\<open>IdentityAdded\<close> runs before the record has left state \<^verbatim>\<open>notification\<close>, and the
  mediator is sent the notification twice.  The first handler, every adapter succeeding,
  takes the record to state \<^verbatim>\<open>responded\<close> and removes the registry entry of \<^verbatim>\<open>T1\<close>, as the
  claim says.  The second handler, whatever its adapters do, inserts the entry again and
  leaves it: the registry points at a record in state \<^verbatim>\<open>responded\<close> from then on.  With
  every adapter succeeding it also announces an error surface for the message the first
  handler delivered (two surface events for \<^verbatim>\<open>T1\<close>) and marks the record error-notified.
\<close>

theorem second_handler_registers_responded:
  "mNotificationIndChan queuedTwice = [notifA, notifA]
   \<and> store handledOnce ''a''
       = Some ((stateOf RESPONDED False notifA)\<lparr>ContentPath := ''/tmp/download1''\<rparr>)
   \<and> unrespondedTransactions handledOnce ''T1'' = None
   \<and> unrespondedTransactions (handleMNotificationInd e notifA handledOnce) ''T1'' = Some ''a''
   \<and> map_option State (store (handleMNotificationInd e notifA handledOnce) ''a'') = Some RESPONDED
   \<and> store (handleMNotificationInd env0 notifA handledOnce) ''a''
       = Some ((stateOf RESPONDED True notifA)\<lparr>ContentPath := ''/tmp/download1''\<rparr>)
   \<and> surfaceEvents (handleMNotificationInd env0 notifA handledOnce) = 2"
proof -
  have n: "UUID notifA = ''a''" "TransactionId notifA = ''T1''" "TransactionId notifA \<noteq> []"
    "RedownloadOfUUID notifA = []"
    by (simp_all add: notifA_def)
  have s: "store handledOnce (UUID notifA)
      = Some ((stateOf RESPONDED False notifA)\<lparr>ContentPath := ''/tmp/download1''\<rparr>)"
    "unrespondedTransactions handledOnce (TransactionId notifA) = None"
    "State ((stateOf RESPONDED False notifA)\<lparr>ContentPath := ''/tmp/download1''\<rparr>) = RESPONDED"
    by (simp_all add: handledOnce_eval n stateOf_def)
  have two: "store (handleMNotificationInd env0 notifA handledOnce) ''a''
       = Some ((stateOf RESPONDED True notifA)\<lparr>ContentPath := ''/tmp/download1''\<rparr>)"
    "surfaceEvents (handleMNotificationInd env0 notifA handledOnce) = 2"
    by (simp_all add: surfaceEvents_def handledOnce_def queuedTwice_def initializeMessages_def
        initializeMessage_def IsIncoming_def handler_defs concrete_defs stateOf_def Let_def
        TrimSuffix_def PLMN_def)
  show ?thesis
    using second_handling [OF s(2) n(3,4) s(1,3), of e] queuedTwice_eval(1) s(1,2) two
    unfolding n by simp
qed

end
